theory Spec2Isabelle
  imports Main
begin

section \<open>Values shared by the gateway operations\<close>

text \<open>
  The gateway of \<^verbatim>\<open>pkg/api/grpc/grpc.go\<close> validates a request, hands it to a
  collaborator (a state store, the pubsub adapter, an output binding, a configuration
  store), records a metric and maps the collaborator's error. Every operation is
  modelled as a function from the collaborators and the request to the Go result pair
  (response, error) and the list of effects in the order the code performs them. Debug
  logging and elapsed times are left out of the effects. A Go byte slice and a Go
  string are both sequences of bytes: the model writes both as \<open>string\<close>, a nil slice
  being the empty one.
\<close>

type_synonym bytes = string
type_synonym metadata = "string \<rightharpoonup> string"

text \<open>The status codes of \<^verbatim>\<open>google.golang.org/grpc/codes\<close>.\<close>

datatype codes =
    OK | Canceled | Unknown | InvalidArgument | DeadlineExceeded | NotFound
  | AlreadyExists | PermissionDenied | ResourceExhausted | FailedPrecondition
  | Aborted | OutOfRange | Unimplemented | Internal | Unavailable | DataLoss
  | Unauthenticated

text \<open>The kinds of \<^verbatim>\<open>state.ETagError\<close>; the kind is a Go string, so other values exist.\<close>

datatype etag_kind = ETagMismatch | ETagInvalid | ETagOtherKind string

text \<open>
  A Go error as a collaborator returns it, by the concrete type that \<^verbatim>\<open>errors.As\<close>
  finds in it; the string is what \<^verbatim>\<open>Error()\<close> prints.
\<close>

datatype goerr =
    PlainError string
  | ETagError etag_kind string
  | KitError codes string
  | NotAllowedError string
  | NotFoundError string

fun Error_string :: "goerr \<Rightarrow> string" where
  "Error_string (PlainError m) = m"
| "Error_string (ETagError k m) = m"
| "Error_string (KitError c m) = m"
| "Error_string (NotAllowedError m) = m"
| "Error_string (NotFoundError m) = m"

text \<open>\<^verbatim>\<open>kiterrors.FromError\<close>: the error as a kit error, when it is one.\<close>

fun FromError :: "goerr \<Rightarrow> (codes \<times> string) option" where
  "FromError (KitError c m) = Some (c, m)"
| "FromError _ = None"

text \<open>The constants of package \<^verbatim>\<open>errorcodes\<close> and the message templates of package
  \<^verbatim>\<open>messages\<close> that the modelled operations use. A message is kept as its template and
  the arguments of \<^verbatim>\<open>fmt.Sprintf\<close>, in order.\<close>

datatype errorcode =
    StateSave | StateDelete | StateBulkDelete | StateGet | StateTransaction
  | StateNotSupportedOperation | BindingInvokeOutputBinding
  | ConfigurationUnsubscribe | ConfigurationSubscribe

datatype template =
    ErrStateSave | ErrStateDelete | ErrStateDeleteBulk | ErrStateGet
  | ErrStateTransaction | ErrNotSupportedStateOperation | ErrInvokeOutputBinding
  | ErrConfigurationUnsubscribe | ErrConfigurationSubscribe

datatype message = Sprintf template "string list" | Literal string

text \<open>The builders of \<^verbatim>\<open>apierrors.PubSub(name)\<close> that the gateway calls, with their
  arguments (application id, wrapped error, topic).\<close>

datatype pubsub_error =
    NotConfigured
  | NameEmpty
  | PubSubNotFound
  | TopicEmpty
  | DeserializeError goerr
  | MarshalEvents string goerr string
  | CloudEventCreation string goerr
  | MarshalEnvelope string "goerr option" string
  | PublishForbidden string string goerr
  | TestNotFound string goerr
  | PublishMessage string goerr

text \<open>The error an operation returns to its caller.\<close>

datatype error =
    Basic codes nat errorcode message
  | PubSub string pubsub_error
  | TransactionsNotSupported string
  | TooManyTransactionalOps string int int
  | PubSubOutbox string goerr
  | StatusErr codes string
  | Err goerr

text \<open>HTTP status codes of \<^verbatim>\<open>net/http\<close>.\<close>

definition StatusInternalServerError :: nat where
  "StatusInternalServerError = 500"

definition StatusBadRequest :: nat where
  "StatusBadRequest = 400"

section \<open>State stores\<close>

text \<open>The requests and responses of \<^verbatim>\<open>components-contrib/state\<close>. The value of a set
  request has Go type \<^verbatim>\<open>any\<close>: a byte slice, or what \<^verbatim>\<open>json.Unmarshal\<close> decoded, kept
  as its Go rendering.\<close>

datatype any_value = Nil | Bytes bytes | Decoded string

record GetRequest =
  get_Key :: string
  get_Metadata :: metadata
  get_Consistency :: string

record SetRequest =
  set_Key :: string
  set_Value :: any_value
  set_ETag :: "string option"
  set_Metadata :: metadata
  set_Concurrency :: string
  set_Consistency :: string

record DeleteRequest =
  del_Key :: string
  del_ETag :: "string option"
  del_Metadata :: metadata
  del_Concurrency :: string
  del_Consistency :: string

record BulkGetResponse =
  bgr_Key :: string
  bgr_Data :: bytes
  bgr_ETag :: "string option"
  bgr_Metadata :: metadata
  bgr_Error :: string

record GetResponse =
  gr_Data :: bytes
  gr_ETag :: "string option"
  gr_Metadata :: metadata

datatype TransactionalStateOperation = SetOp SetRequest | DeleteOp DeleteRequest

record TransactionalStateRequest =
  tsr_Operations :: "TransactionalStateOperation list"
  tsr_Metadata :: metadata

text \<open>The messages of the runtime API (\<^verbatim>\<open>runtimev1pb\<close>, \<^verbatim>\<open>commonv1pb\<close>). The options of a
  state item are the two protobuf enumeration values.\<close>

record StateOptions =
  opt_Concurrency :: int
  opt_Consistency :: int

record StateItem =
  si_Key :: string
  si_Value :: bytes
  si_Etag :: "string option"
  si_Metadata :: metadata
  si_Options :: "StateOptions option"

record BulkStateItem =
  bsi_Key :: string
  bsi_Data :: bytes
  bsi_Etag :: string
  bsi_Metadata :: metadata
  bsi_Error :: string

record GetBulkStateRequest =
  gbs_StoreName :: string
  gbs_Keys :: "string list"
  gbs_Parallelism :: int
  gbs_Metadata :: metadata

record GetStateRequest =
  gs_StoreName :: string
  gs_Key :: string
  gs_Consistency :: int
  gs_Metadata :: metadata

record GetStateResponse =
  gsr_Data :: bytes
  gsr_Etag :: string
  gsr_Metadata :: metadata

record SaveStateRequest =
  ss_StoreName :: string
  ss_States :: "StateItem list"

record DeleteStateRequest =
  ds_StoreName :: string
  ds_Key :: string
  ds_Etag :: "string option"
  ds_Options :: "StateOptions option"
  ds_Metadata :: metadata

record DeleteBulkStateRequest =
  dbs_StoreName :: string
  dbs_States :: "StateItem list"

record TransactionalStateOperationPb =
  top_OperationType :: string
  top_Request :: StateItem

record ExecuteStateTransactionRequest =
  est_StoreName :: string
  est_Operations :: "TransactionalStateOperationPb list"
  est_Metadata :: metadata

text \<open>
  A state store handle. Each driver method stands for the outcome of the call as the
  gateway sees it, that is, run under the store's resiliency policy:
  \<open>store_Set\<close> and \<open>store_BulkDelete\<close> are \<^verbatim>\<open>stateLoader.PerformBulkStoreOperation\<close>
  applied to \<^verbatim>\<open>store.Set\<close>/\<^verbatim>\<open>store.BulkSet\<close> and to \<^verbatim>\<open>store.Delete\<close>/\<^verbatim>\<open>store.BulkDelete\<close>.
  \<open>store_Transactional\<close> says that the handle implements \<^verbatim>\<open>state.TransactionalStore\<close>,
  \<open>store_MultiMaxSize\<close> is the value of \<^verbatim>\<open>MultiMaxSize()\<close> when the handle implements
  \<^verbatim>\<open>state.TransactionalStoreMultiMaxSize\<close>.
\<close>

record StateStore =
  store_Features :: "string list"
  store_Transactional :: bool
  store_MultiMaxSize :: "int option"
  store_BulkGet :: "GetRequest list \<Rightarrow> int \<Rightarrow> BulkGetResponse list \<times> goerr option"
  store_Get :: "GetRequest \<Rightarrow> GetResponse option \<times> goerr option"
  store_Set :: "SetRequest list \<Rightarrow> goerr option"
  store_Delete :: "DeleteRequest \<Rightarrow> goerr option"
  store_BulkDelete :: "DeleteRequest list \<Rightarrow> goerr option"
  store_Multi :: "TransactionalStateRequest \<Rightarrow> goerr option"

definition FeatureTransactional :: string where
  "FeatureTransactional = ''TRANSACTIONAL''"

text \<open>The operations that the state metric \<^verbatim>\<open>StateInvoked\<close> names.\<close>

datatype state_operation =
    diag_Get | diag_BulkGet | diag_Set | diag_Delete | diag_BulkDelete
  | diag_StateTransaction

text \<open>What the gateway does to the outside while it serves a state request.\<close>

datatype state_event =
    Dispatch_BulkGet string "GetRequest list" int
  | Dispatch_Get string GetRequest
  | Dispatch_Set string "SetRequest list"
  | Dispatch_Delete string DeleteRequest
  | Dispatch_BulkDelete string "DeleteRequest list"
  | Dispatch_Multi string TransactionalStateRequest
  | Outbox_PublishInternal string "TransactionalStateOperation list"
  | StateInvoked string state_operation bool

text \<open>
  The collaborators of the state operations: the application id and the store registry
  of \<^verbatim>\<open>universal.Universal\<close>, the key rewriter of \<^verbatim>\<open>pkg/components/state\<close>, package
  \<^verbatim>\<open>encryption\<close>, \<^verbatim>\<open>json.Unmarshal\<close>, the two enumeration printers of the package and the
  outbox. None of them is part of the sources, so each is a parameter.
\<close>

record state_api =
  AppID :: string
  GetStateStore :: "string \<Rightarrow> error + StateStore"
  GetModifiedStateKey :: "string \<Rightarrow> string \<Rightarrow> string \<Rightarrow> goerr + string"
  GetOriginalStateKey :: "string \<Rightarrow> string"
  EncryptedStateStore :: "string \<Rightarrow> bool"
  TryEncryptValue :: "string \<Rightarrow> bytes \<Rightarrow> goerr + bytes"
  TryDecryptValue :: "string \<Rightarrow> bytes \<Rightarrow> goerr + bytes"
  json_Unmarshal :: "bytes \<Rightarrow> goerr + string"
  stateConsistencyToString :: "int \<Rightarrow> string"
  stateConcurrencyToString :: "int \<Rightarrow> string"
  outbox_Enabled :: "string \<Rightarrow> bool"
  outbox_PublishInternal ::
    "string \<Rightarrow> TransactionalStateOperation list \<Rightarrow> goerr + TransactionalStateOperation list"

type_synonym 'r state_result = "('r \<times> error option) \<times> state_event list"

definition stringValueOrEmpty :: "string option \<Rightarrow> string" where
  "stringValueOrEmpty v = (case v of None \<Rightarrow> [] | Some s \<Rightarrow> s)"


definition ContentType :: string where
  "ContentType = ''contentType''"

definition JSONContentType :: string where
  "JSONContentType = ''application/json''"

definition OperationUpsert :: string where
  "OperationUpsert = ''upsert''"

definition OperationDelete :: string where
  "OperationDelete = ''delete''"

subsection \<open>Printing a value with the verb \<^verbatim>\<open>%v\<close>\<close>

text \<open>\<^verbatim>\<open>fmt.Sprintf("%v", v)\<close> prints a byte slice as the decimal values of its bytes,
  separated by spaces, between square brackets; a nil interface prints as
  \<^verbatim>\<open><nil>\<close>.\<close>

definition digit :: "nat \<Rightarrow> char" where
  "digit d = ''0123456789'' ! d"

fun decimal :: "nat \<Rightarrow> string" where
  "decimal n = (if n < 10 then [digit n] else decimal (n div 10) @ [digit (n mod 10)])"

declare decimal.simps [simp del]

fun join_space :: "string list \<Rightarrow> string" where
  "join_space [] = []"
| "join_space [x] = x"
| "join_space (x # y # ys) = x @ '' '' @ join_space (y # ys)"

fun Sprintf_v :: "any_value \<Rightarrow> string" where
  "Sprintf_v Nil = ''<nil>''"
| "Sprintf_v (Bytes b) = ''['' @ join_space (map (\<lambda>c. decimal (of_char c)) b) @ '']''"
| "Sprintf_v (Decoded s) = s"

subsection \<open>Error mapping of state writes\<close>

text \<open>\<^verbatim>\<open>getStateErrorCode\<close>: the status code for the error of a state store.\<close>

definition getStateErrorCode :: "goerr \<Rightarrow> codes" where
  "getStateErrorCode err =
     (case err of
        ETagError kind m \<Rightarrow>
          (case kind of
             ETagMismatch \<Rightarrow> Aborted
           | ETagInvalid \<Rightarrow> InvalidArgument
           | ETagOtherKind k \<Rightarrow> Internal)
      | _ \<Rightarrow> Internal)"

text \<open>The error branch shared by \<^verbatim>\<open>SaveState\<close>, \<^verbatim>\<open>DeleteState\<close> and \<^verbatim>\<open>DeleteBulkState\<close>:
  a kit error is returned as it is, any other error is rebuilt with the code of
  \<open>getStateErrorCode\<close> and a templated message.\<close>

definition state_write_error :: "errorcode \<Rightarrow> template \<Rightarrow> string \<Rightarrow> goerr \<Rightarrow> error" where
  "state_write_error ec tmpl arg err =
     (case FromError err of
        Some kerr \<Rightarrow> Err err
      | None \<Rightarrow>
          Basic (getStateErrorCode err) StatusInternalServerError ec
            (Sprintf tmpl [arg, Error_string err]))"

subsection \<open>GetBulkState and GetState\<close>

text \<open>The first loop of \<^verbatim>\<open>GetBulkState\<close>: one driver request per key, or the first error
  of the key rewriter.\<close>

fun bulk_get_requests :: "state_api \<Rightarrow> string \<Rightarrow> metadata \<Rightarrow> string list \<Rightarrow> goerr + GetRequest list" where
  "bulk_get_requests a storeName md [] = Inr []"
| "bulk_get_requests a storeName md (k # ks) =
     (case GetModifiedStateKey a k storeName (AppID a) of
        Inl err \<Rightarrow> Inl err
      | Inr key \<Rightarrow>
          (case bulk_get_requests a storeName md ks of
             Inl err \<Rightarrow> Inl err
           | Inr reqs \<Rightarrow>
               Inr (\<lparr>get_Key = key, get_Metadata = md, get_Consistency = []\<rparr> # reqs)))"

definition bulk_item :: "state_api \<Rightarrow> BulkGetResponse \<Rightarrow> BulkStateItem" where
  "bulk_item a r =
     \<lparr>bsi_Key = GetOriginalStateKey a (bgr_Key r), bsi_Data = bgr_Data r,
      bsi_Etag = stringValueOrEmpty (bgr_ETag r), bsi_Metadata = bgr_Metadata r,
      bsi_Error = bgr_Error r\<rparr>"

text \<open>The body of the decryption loop of \<^verbatim>\<open>GetBulkState\<close>, for one item.\<close>

definition decrypt_item :: "state_api \<Rightarrow> string \<Rightarrow> BulkStateItem \<Rightarrow> BulkStateItem" where
  "decrypt_item a storeName item =
     (if bsi_Error item \<noteq> [] \<or> length (bsi_Data item) = 0 then item\<lparr>bsi_Data := []\<rparr>
      else
        (case TryDecryptValue a storeName (bsi_Data item) of
           Inl err \<Rightarrow> item\<lparr>bsi_Data := [], bsi_Error := Error_string err\<rparr>
         | Inr val \<Rightarrow> item\<lparr>bsi_Data := val\<rparr>))"

definition GetBulkState :: "state_api \<Rightarrow> GetBulkStateRequest \<Rightarrow> BulkStateItem list state_result" where
  "GetBulkState a req =
     (case GetStateStore a (gbs_StoreName req) of
        Inl err \<Rightarrow> (([], Some err), [])
      | Inr store \<Rightarrow>
          if length (gbs_Keys req) = 0 then (([], None), [])
          else
            (case bulk_get_requests a (gbs_StoreName req) (gbs_Metadata req) (gbs_Keys req) of
               Inl err \<Rightarrow> (([], Some (Err err)), [])
             | Inr reqs \<Rightarrow>
                 (case store_BulkGet store reqs (gbs_Parallelism req) of
                    (responses, err) \<Rightarrow>
                      let effects =
                            [Dispatch_BulkGet (gbs_StoreName req) reqs (gbs_Parallelism req),
                             StateInvoked (gbs_StoreName req) diag_BulkGet (err = None)]
                      in (case err of
                            Some e \<Rightarrow> (([], Some (Err e)), effects)
                          | None \<Rightarrow>
                              let items = map (bulk_item a) responses
                              in if EncryptedStateStore a (gbs_StoreName req)
                                 then ((map (decrypt_item a (gbs_StoreName req)) items, None), effects)
                                 else ((items, None), effects)))))"

definition empty_GetStateResponse :: GetStateResponse where
  "empty_GetStateResponse = \<lparr>gsr_Data = [], gsr_Etag = [], gsr_Metadata = Map.empty\<rparr>"

definition GetState :: "state_api \<Rightarrow> GetStateRequest \<Rightarrow> GetStateResponse state_result" where
  "GetState a req =
     (case GetStateStore a (gs_StoreName req) of
        Inl err \<Rightarrow> ((empty_GetStateResponse, Some err), [])
      | Inr store \<Rightarrow>
          (case GetModifiedStateKey a (gs_Key req) (gs_StoreName req) (AppID a) of
             Inl err \<Rightarrow> ((empty_GetStateResponse, Some (Err err)), [])
           | Inr key \<Rightarrow>
               let r = \<lparr>get_Key = key, get_Metadata = gs_Metadata req,
                        get_Consistency = stateConsistencyToString a (gs_Consistency req)\<rparr>
               in (case store_Get store r of
                     (getResponse, err) \<Rightarrow>
                       let effects =
                             [Dispatch_Get (gs_StoreName req) r,
                              StateInvoked (gs_StoreName req) diag_Get (err = None)]
                       in (case err of
                             Some e \<Rightarrow>
                               ((empty_GetStateResponse,
                                 Some (case FromError e of
                                         Some (c, m) \<Rightarrow> StatusErr c m
                                       | None \<Rightarrow>
                                           Basic Internal StatusInternalServerError StateGet
                                             (Sprintf ErrStateGet
                                                [gs_Key req, gs_StoreName req, Error_string e]))),
                                effects)
                           | None \<Rightarrow>
                               let resp =
                                     (case getResponse of
                                        None \<Rightarrow> \<lparr>gr_Data = [], gr_ETag = None, gr_Metadata = Map.empty\<rparr>
                                      | Some g \<Rightarrow> g)
                               in if EncryptedStateStore a (gs_StoreName req) then
                                    (case TryDecryptValue a (gs_StoreName req) (gr_Data resp) of
                                       Inl e \<Rightarrow>
                                         ((empty_GetStateResponse,
                                           Some (Basic Internal StatusInternalServerError StateGet
                                                   (Sprintf ErrStateGet
                                                      [gs_Key req, gs_StoreName req, Error_string e]))),
                                          effects)
                                     | Inr val \<Rightarrow>
                                         ((\<lparr>gsr_Data = val,
                                            gsr_Etag = stringValueOrEmpty (gr_ETag resp),
                                            gsr_Metadata = gr_Metadata resp\<rparr>, None), effects))
                                  else
                                    ((\<lparr>gsr_Data = gr_Data resp,
                                       gsr_Etag = stringValueOrEmpty (gr_ETag resp),
                                       gsr_Metadata = gr_Metadata resp\<rparr>, None), effects)))))"


subsection \<open>SaveState, DeleteState and DeleteBulkState\<close>

definition set_options :: "state_api \<Rightarrow> StateOptions option \<Rightarrow> string \<times> string" where
  "set_options a opts =
     (case opts of
        None \<Rightarrow> ([], [])
      | Some opt \<Rightarrow>
          (stateConcurrencyToString a (opt_Concurrency opt),
           stateConsistencyToString a (opt_Consistency opt)))"

text \<open>The body of the loop of \<^verbatim>\<open>SaveState\<close>: the driver request for one state item, or
  the error that ends the call.\<close>

definition save_request :: "state_api \<Rightarrow> string \<Rightarrow> StateItem \<Rightarrow> error + SetRequest" where
  "save_request a storeName s =
     (if length (si_Key s) = 0 then
        Inl (Basic InvalidArgument StatusBadRequest StateSave (Literal ''state key cannot be empty''))
      else
        (case GetModifiedStateKey a (si_Key s) storeName (AppID a) of
           Inl err \<Rightarrow> Inl (Err err)
         | Inr key \<Rightarrow>
             (case (if si_Metadata s ContentType = Some JSONContentType
                    then (case json_Unmarshal a (si_Value s) of
                            Inl err \<Rightarrow> Inl (Err err)
                          | Inr v \<Rightarrow> Inr (Decoded v))
                    else Inr (Bytes (si_Value s))) of
                Inl err \<Rightarrow> Inl err
              | Inr v \<Rightarrow>
                  let req = \<lparr>set_Key = key, set_Value = v, set_ETag = si_Etag s,
                             set_Metadata = si_Metadata s,
                             set_Concurrency = fst (set_options a (si_Options s)),
                             set_Consistency = snd (set_options a (si_Options s))\<rparr>
                  in if EncryptedStateStore a storeName then
                       (case TryEncryptValue a storeName (si_Value s) of
                          Inl encErr \<Rightarrow> Inl (Err encErr)
                        | Inr val \<Rightarrow> Inr (req\<lparr>set_Value := Bytes val\<rparr>))
                     else Inr req)))"

fun save_requests :: "state_api \<Rightarrow> string \<Rightarrow> StateItem list \<Rightarrow> error + SetRequest list" where
  "save_requests a storeName [] = Inr []"
| "save_requests a storeName (s # ss) =
     (case save_request a storeName s of
        Inl err \<Rightarrow> Inl err
      | Inr req \<Rightarrow>
          (case save_requests a storeName ss of
             Inl err \<Rightarrow> Inl err
           | Inr reqs \<Rightarrow> Inr (req # reqs)))"

definition SaveState :: "state_api \<Rightarrow> SaveStateRequest \<Rightarrow> unit state_result" where
  "SaveState a req =
     (case GetStateStore a (ss_StoreName req) of
        Inl err \<Rightarrow> (((), Some err), [])
      | Inr store \<Rightarrow>
          if length (ss_States req) = 0 then (((), None), [])
          else
            (case save_requests a (ss_StoreName req) (ss_States req) of
               Inl err \<Rightarrow> (((), Some err), [])
             | Inr reqs \<Rightarrow>
                 let err = store_Set store reqs;
                     effects = [Dispatch_Set (ss_StoreName req) reqs,
                                StateInvoked (ss_StoreName req) diag_Set (err = None)]
                 in (case err of
                       Some e \<Rightarrow>
                         (((), Some (state_write_error StateSave ErrStateSave (ss_StoreName req) e)),
                          effects)
                     | None \<Rightarrow> (((), None), effects))))"

definition DeleteState :: "state_api \<Rightarrow> DeleteStateRequest \<Rightarrow> unit state_result" where
  "DeleteState a req =
     (case GetStateStore a (ds_StoreName req) of
        Inl err \<Rightarrow> (((), Some err), [])
      | Inr store \<Rightarrow>
          (case GetModifiedStateKey a (ds_Key req) (ds_StoreName req) (AppID a) of
             Inl err \<Rightarrow> (((), Some (Err err)), [])
           | Inr key \<Rightarrow>
               let r = \<lparr>del_Key = key, del_ETag = ds_Etag req, del_Metadata = ds_Metadata req,
                        del_Concurrency = fst (set_options a (ds_Options req)),
                        del_Consistency = snd (set_options a (ds_Options req))\<rparr>;
                   err = store_Delete store r;
                   effects = [Dispatch_Delete (ds_StoreName req) r,
                              StateInvoked (ds_StoreName req) diag_Delete (err = None)]
               in (case err of
                     Some e \<Rightarrow>
                       (((), Some (state_write_error StateDelete ErrStateDelete (ds_Key req) e)),
                        effects)
                   | None \<Rightarrow> (((), None), effects))))"

text \<open>The loop of \<^verbatim>\<open>DeleteBulkState\<close>.\<close>

fun delete_requests :: "state_api \<Rightarrow> string \<Rightarrow> StateItem list \<Rightarrow> goerr + DeleteRequest list" where
  "delete_requests a storeName [] = Inr []"
| "delete_requests a storeName (item # items) =
     (case GetModifiedStateKey a (si_Key item) storeName (AppID a) of
        Inl err1 \<Rightarrow> Inl err1
      | Inr key \<Rightarrow>
          (case delete_requests a storeName items of
             Inl err1 \<Rightarrow> Inl err1
           | Inr reqs \<Rightarrow>
               Inr (\<lparr>del_Key = key, del_ETag = si_Etag item, del_Metadata = si_Metadata item,
                     del_Concurrency = fst (set_options a (si_Options item)),
                     del_Consistency = snd (set_options a (si_Options item))\<rparr> # reqs)))"

definition DeleteBulkState :: "state_api \<Rightarrow> DeleteBulkStateRequest \<Rightarrow> unit state_result" where
  "DeleteBulkState a req =
     (case GetStateStore a (dbs_StoreName req) of
        Inl err \<Rightarrow> (((), Some err), [])
      | Inr store \<Rightarrow>
          (case delete_requests a (dbs_StoreName req) (dbs_States req) of
             Inl err1 \<Rightarrow> (((), Some (Err err1)), [])
           | Inr reqs \<Rightarrow>
               let err = store_BulkDelete store reqs;
                   effects = [Dispatch_BulkDelete (dbs_StoreName req) reqs,
                              StateInvoked (dbs_StoreName req) diag_BulkDelete (err = None)]
               in (case err of
                     Some e \<Rightarrow>
                       (((), Some (state_write_error StateBulkDelete ErrStateDeleteBulk
                                     (dbs_StoreName req) e)),
                        effects)
                   | None \<Rightarrow> (((), None), effects))))"

subsection \<open>ExecuteStateTransaction\<close>

text \<open>The body of the first loop: the store operation for one request operation.\<close>

definition transaction_operation ::
  "state_api \<Rightarrow> string \<Rightarrow> TransactionalStateOperationPb \<Rightarrow> error + TransactionalStateOperation" where
  "transaction_operation a storeName inputReq =
     (let req = top_Request inputReq in
      case GetModifiedStateKey a (si_Key req) storeName (AppID a) of
        Inl err \<Rightarrow> Inl (Err err)
      | Inr key \<Rightarrow>
          if top_OperationType inputReq = OperationUpsert then
            Inr (SetOp \<lparr>set_Key = key, set_Value = Bytes (si_Value req), set_ETag = si_Etag req,
                        set_Metadata = si_Metadata req,
                        set_Concurrency = fst (set_options a (si_Options req)),
                        set_Consistency = snd (set_options a (si_Options req))\<rparr>)
          else if top_OperationType inputReq = OperationDelete then
            Inr (DeleteOp \<lparr>del_Key = key, del_ETag = si_Etag req, del_Metadata = si_Metadata req,
                           del_Concurrency = fst (set_options a (si_Options req)),
                           del_Consistency = snd (set_options a (si_Options req))\<rparr>)
          else
            Inl (Basic Unimplemented StatusInternalServerError StateNotSupportedOperation
                   (Sprintf ErrNotSupportedStateOperation [top_OperationType inputReq])))"

fun transaction_operations ::
  "state_api \<Rightarrow> string \<Rightarrow> TransactionalStateOperationPb list \<Rightarrow> error + TransactionalStateOperation list" where
  "transaction_operations a storeName [] = Inr []"
| "transaction_operations a storeName (inputReq # rest) =
     (case transaction_operation a storeName inputReq of
        Inl err \<Rightarrow> Inl err
      | Inr op \<Rightarrow>
          (case transaction_operations a storeName rest of
             Inl err \<Rightarrow> Inl err
           | Inr ops \<Rightarrow> Inr (op # ops)))"

text \<open>The encryption loop: every set request gets the ciphertext of its value printed
  with \<^verbatim>\<open>%v\<close>; the first encryption error ends the call.\<close>

fun encrypt_operations ::
  "state_api \<Rightarrow> string \<Rightarrow> TransactionalStateOperation list \<Rightarrow> error + TransactionalStateOperation list" where
  "encrypt_operations a storeName [] = Inr []"
| "encrypt_operations a storeName (DeleteOp req # ops) =
     (case encrypt_operations a storeName ops of
        Inl err \<Rightarrow> Inl err
      | Inr ops' \<Rightarrow> Inr (DeleteOp req # ops'))"
| "encrypt_operations a storeName (SetOp req # ops) =
     (let data = Sprintf_v (set_Value req) in
      case TryEncryptValue a storeName data of
        Inl err \<Rightarrow>
          Inl (Basic Internal StatusInternalServerError StateTransaction
                 (Sprintf ErrStateTransaction [Error_string err]))
      | Inr val \<Rightarrow>
          (case encrypt_operations a storeName ops of
             Inl err \<Rightarrow> Inl err
           | Inr ops' \<Rightarrow> Inr (SetOp (req\<lparr>set_Value := Bytes val\<rparr>) # ops')))"

text \<open>The tail of \<^verbatim>\<open>ExecuteStateTransaction\<close>, from the outbox to the store's \<^verbatim>\<open>Multi\<close>.\<close>

definition transaction_dispatch ::
  "state_api \<Rightarrow> StateStore \<Rightarrow> ExecuteStateTransactionRequest \<Rightarrow> TransactionalStateOperation list
     \<Rightarrow> unit state_result" where
  "transaction_dispatch a store req operations =
     (case (if outbox_Enabled a (est_StoreName req)
            then (case outbox_PublishInternal a (est_StoreName req) operations of
                    Inl err \<Rightarrow> (Inl (PubSubOutbox (AppID a) err),
                                 [Outbox_PublishInternal (est_StoreName req) operations])
                  | Inr ops \<Rightarrow> (Inr ops, [Outbox_PublishInternal (est_StoreName req) operations]))
            else (Inr operations, [])) of
        (Inl nerr, effects) \<Rightarrow> (((), Some nerr), effects)
      | (Inr ops, effects) \<Rightarrow>
          let storeReq = \<lparr>tsr_Operations = ops, tsr_Metadata = est_Metadata req\<rparr>;
              err = store_Multi store storeReq;
              effects' = effects @
                [Dispatch_Multi (est_StoreName req) storeReq,
                 StateInvoked (est_StoreName req) diag_StateTransaction (err = None)]
          in (case err of
                Some e \<Rightarrow>
                  (((), Some (Basic Internal StatusInternalServerError StateTransaction
                                (Sprintf ErrStateTransaction [Error_string e]))),
                   effects')
              | None \<Rightarrow> (((), None), effects')))"

text \<open>The part after the size check: encryption, then the dispatch.\<close>

definition transaction_encrypt_dispatch ::
  "state_api \<Rightarrow> StateStore \<Rightarrow> ExecuteStateTransactionRequest \<Rightarrow> TransactionalStateOperation list
     \<Rightarrow> unit state_result" where
  "transaction_encrypt_dispatch a store req operations =
     (if EncryptedStateStore a (est_StoreName req) then
        (case encrypt_operations a (est_StoreName req) operations of
           Inl err \<Rightarrow> (((), Some err), [])
         | Inr operations' \<Rightarrow> transaction_dispatch a store req operations')
      else transaction_dispatch a store req operations)"

definition ExecuteStateTransaction ::
  "state_api \<Rightarrow> ExecuteStateTransactionRequest \<Rightarrow> unit state_result" where
  "ExecuteStateTransaction a req =
     (case GetStateStore a (est_StoreName req) of
        Inl storeErr \<Rightarrow> (((), Some storeErr), [])
      | Inr store \<Rightarrow>
          if \<not> store_Transactional store \<or> FeatureTransactional \<notin> set (store_Features store)
          then (((), Some (TransactionsNotSupported (est_StoreName req))), [])
          else
            (case transaction_operations a (est_StoreName req) (est_Operations req) of
               Inl err \<Rightarrow> (((), Some err), [])
             | Inr operations \<Rightarrow>
                 (case store_MultiMaxSize store of
                    Some mx \<Rightarrow>
                      if mx > 0 \<and> int (length operations) > mx then
                        (((), Some (TooManyTransactionalOps (est_StoreName req)
                                      (int (length operations)) mx)), [])
                      else transaction_encrypt_dispatch a store req operations
                  | None \<Rightarrow> transaction_encrypt_dispatch a store req operations)))"


section \<open>Bulk publish\<close>

text \<open>The messages of the runtime API and of \<^verbatim>\<open>components-contrib/pubsub\<close>. The metadata
  of an entry of the API request may be absent (a nil map).\<close>

record BulkPublishRequestEntry =
  bpe_EntryId :: string
  bpe_Event :: bytes
  bpe_ContentType :: string
  bpe_Metadata :: "metadata option"

record BulkPublishRequestPb =
  bp_PubsubName :: string
  bp_Topic :: string
  bp_Entries :: "BulkPublishRequestEntry list"
  bp_Metadata :: metadata

record BulkMessageEntry =
  bme_EntryId :: string
  bme_Event :: bytes
  bme_ContentType :: string
  bme_Metadata :: metadata

record BulkPublishRequest =
  bpr_PubsubName :: string
  bpr_Topic :: string
  bpr_Entries :: "BulkMessageEntry list"
  bpr_Metadata :: metadata

record BulkPublishResponseFailedEntry =
  fe_EntryId :: string
  fe_Error :: "goerr option"

record BulkPublishResponseFailedEntryPb =
  fep_EntryId :: string
  fep_Error :: string

record CloudEvent =
  ce_Source :: string
  ce_Topic :: string
  ce_DataContentType :: string
  ce_Data :: bytes
  ce_TraceID :: string
  ce_TraceState :: string
  ce_Pubsub :: string

text \<open>What the gateway does to the outside while it serves a bulk publish: the child
  spans it starts and ends (a span is named by the index of its entry), the dispatch to
  the broker and the egress metric with its success flag and its count of published
  events.\<close>

datatype pubsub_event =
    SpanStart nat
  | SpanEnd nat "error option"
  | Dispatch_BulkPublish BulkPublishRequest
  | BulkPubsubEgressEvent string string bool int

text \<open>
  The collaborators of the bulk publish, none of them part of the sources:
  \<open>pubsubAdapter\<close> is the adapter's \<^verbatim>\<open>BulkPublish\<close> (absent when the adapter is nil),
  \<open>GetPubSub\<close> the component registry, giving the features of a registered pubsub,
  \<open>IsRawPayload\<close> of \<^verbatim>\<open>components-contrib/metadata\<close>, the cloud event functions of
  \<^verbatim>\<open>pkg/runtime/pubsub\<close> and \<^verbatim>\<open>components-contrib/pubsub\<close> over an envelope type \<open>'e\<close>,
  \<^verbatim>\<open>json.Marshal\<close>, \<^verbatim>\<open>utils.PopulateMetadataForBulkPublishEntry\<close>, and the trace id and
  trace state of the child span of an entry.
\<close>

record 'e pubsub_api =
  ps_AppID :: string
  pubsubAdapter :: "(BulkPublishRequest \<Rightarrow> BulkPublishResponseFailedEntry list \<times> goerr option) option"
  GetPubSub :: "string \<Rightarrow> string list option"
  IsRawPayload :: "metadata \<Rightarrow> goerr + bool"
  NewCloudEvent :: "CloudEvent \<Rightarrow> metadata \<Rightarrow> goerr + 'e"
  ApplyMetadata :: "'e \<Rightarrow> string list \<Rightarrow> metadata \<Rightarrow> 'e"
  json_Marshal :: "'e \<Rightarrow> goerr + bytes"
  PopulateMetadataForBulkPublishEntry :: "metadata \<Rightarrow> metadata \<Rightarrow> metadata"
  TraceIDAndStateFromSpan :: "nat \<Rightarrow> string \<times> string"

text \<open>\<^verbatim>\<open>validateAndGetPubsubAndTopic\<close>: the features of the pubsub component, the pubsub
  name, the topic and the raw payload flag, or the validation error.\<close>

definition validateAndGetPubsubAndTopic ::
  "'e pubsub_api \<Rightarrow> string \<Rightarrow> string \<Rightarrow> metadata \<Rightarrow> error + (string list \<times> string \<times> string \<times> bool)" where
  "validateAndGetPubsubAndTopic a pubsubName topic reqMeta =
     (if pubsubAdapter a = None then Inl (PubSub pubsubName NotConfigured)
      else if pubsubName = [] then Inl (PubSub pubsubName NameEmpty)
      else
        (case GetPubSub a pubsubName of
           None \<Rightarrow> Inl (PubSub pubsubName PubSubNotFound)
         | Some thepubsub \<Rightarrow>
             if topic = [] then Inl (PubSub pubsubName TopicEmpty)
             else
               (case IsRawPayload a reqMeta of
                  Inl metaErr \<Rightarrow> Inl (PubSub pubsubName (DeserializeError metaErr))
                | Inr rawPayload \<Rightarrow> Inr (thepubsub, pubsubName, topic, rawPayload))))"

text \<open>\<^verbatim>\<open>closeChildSpans\<close>: every span started so far gets the status of the error and is
  ended. The code ranges over a Go map, in no fixed order; the model ends the spans in
  the order they were started.\<close>

definition closeChildSpans :: "nat list \<Rightarrow> error option \<Rightarrow> pubsub_event list" where
  "closeChildSpans spanMap err = map (\<lambda>i. SpanEnd i err) spanMap"

text \<open>The start of the loop body: the entry for the broker, with the request metadata
  merged into the metadata of the entry when the entry has some.\<close>

definition message_entry :: "'e pubsub_api \<Rightarrow> metadata \<Rightarrow> BulkPublishRequestEntry \<Rightarrow> BulkMessageEntry" where
  "message_entry a reqMeta entry =
     \<lparr>bme_EntryId = bpe_EntryId entry, bme_Event = bpe_Event entry,
      bme_ContentType = bpe_ContentType entry,
      bme_Metadata = (case bpe_Metadata entry of
                        None \<Rightarrow> Map.empty
                      | Some m \<Rightarrow> PopulateMetadataForBulkPublishEntry a reqMeta m)\<rparr>"

text \<open>The rest of the loop body when the payload is not raw: the event of entry \<open>i\<close> is
  replaced by its cloud event envelope, or the call ends with an error.\<close>

definition envelope_entry ::
  "'e pubsub_api \<Rightarrow> string \<Rightarrow> string \<Rightarrow> string list \<Rightarrow> nat \<Rightarrow> BulkMessageEntry
     \<Rightarrow> error + BulkMessageEntry" where
  "envelope_entry a pubsubName topic features i e =
     (case NewCloudEvent a
             \<lparr>ce_Source = ps_AppID a, ce_Topic = topic,
              ce_DataContentType = bme_ContentType e, ce_Data = bme_Event e,
              ce_TraceID = fst (TraceIDAndStateFromSpan a i),
              ce_TraceState = snd (TraceIDAndStateFromSpan a i),
              ce_Pubsub = pubsubName\<rparr> (bme_Metadata e) of
        Inl err \<Rightarrow> Inl (PubSub pubsubName (CloudEventCreation (ps_AppID a) err))
      | Inr envelope \<Rightarrow>
          (case json_Marshal a (ApplyMetadata a envelope features (bme_Metadata e)) of
             Inl err \<Rightarrow> Inl (PubSub pubsubName (MarshalEnvelope (ps_AppID a) (Some err) topic))
           | Inr data \<Rightarrow> Inr (e\<lparr>bme_Event := data\<rparr>)))"

text \<open>
  The loop over the entries of the request, from entry \<open>i\<close> on, with the entry ids seen
  so far and the spans started so far. It gives the error that ends the call or the
  entries for the broker, then the spans started, then the effects. An entry with a bad
  id ends the call at once, without the call of \<^verbatim>\<open>closeChildSpans\<close> that the other
  returns of the loop make.
\<close>

fun bulk_entries ::
  "'e pubsub_api \<Rightarrow> string \<Rightarrow> string \<Rightarrow> bool \<Rightarrow> string list \<Rightarrow> metadata \<Rightarrow> nat \<Rightarrow> string set
     \<Rightarrow> nat list \<Rightarrow> BulkPublishRequestEntry list
     \<Rightarrow> (error + BulkMessageEntry list) \<times> nat list \<times> pubsub_event list" where
  "bulk_entries a pubsubName topic rawPayload features reqMeta i entryIdSet spanMap [] =
     (Inr [], spanMap, [])"
| "bulk_entries a pubsubName topic rawPayload features reqMeta i entryIdSet spanMap (entry # rest) =
     (if bpe_EntryId entry \<in> entryIdSet \<or> bpe_EntryId entry = [] then
        (Inl (PubSub pubsubName
                (MarshalEvents (ps_AppID a)
                   (PlainError ''entryId is duplicated or not present for entry'') topic)),
         spanMap, [])
      else if rawPayload then
        (case bulk_entries a pubsubName topic rawPayload features reqMeta (Suc i)
                (insert (bpe_EntryId entry) entryIdSet) spanMap rest of
           (r, sm, effects) \<Rightarrow>
             ((case r of
                 Inl err \<Rightarrow> Inl err
               | Inr es \<Rightarrow> Inr (message_entry a reqMeta entry # es)), sm, effects))
      else
        (case envelope_entry a pubsubName topic features i (message_entry a reqMeta entry) of
           Inl nerr \<Rightarrow>
             (Inl nerr, spanMap @ [i], SpanStart i # closeChildSpans (spanMap @ [i]) (Some nerr))
         | Inr e \<Rightarrow>
             (case bulk_entries a pubsubName topic rawPayload features reqMeta (Suc i)
                     (insert (bpe_EntryId entry) entryIdSet) (spanMap @ [i]) rest of
                (r, sm, effects) \<Rightarrow>
                  ((case r of
                      Inl err \<Rightarrow> Inl err
                    | Inr es \<Rightarrow> Inr (e # es)), sm, SpanStart i # effects))))"

text \<open>The error for a failed broker call.\<close>

definition bulk_publish_error :: "'e pubsub_api \<Rightarrow> string \<Rightarrow> string \<Rightarrow> goerr \<Rightarrow> error" where
  "bulk_publish_error a pubsubName topic err =
     (case err of
        NotAllowedError m \<Rightarrow> PubSub pubsubName (PublishForbidden topic (ps_AppID a) err)
      | NotFoundError m \<Rightarrow> PubSub pubsubName (TestNotFound topic err)
      | _ \<Rightarrow> PubSub pubsubName (PublishMessage topic err))"

definition failed_entry :: "BulkPublishResponseFailedEntry \<Rightarrow> BulkPublishResponseFailedEntryPb" where
  "failed_entry r =
     \<lparr>fep_EntryId = fe_EntryId r,
      fep_Error = (case fe_Error r of None \<Rightarrow> [] | Some e \<Rightarrow> Error_string e)\<rparr>"

text \<open>\<^verbatim>\<open>BulkPublishEventAlpha1\<close>. The adapter is called only after the validation, which
  has refused a nil adapter.\<close>

definition BulkPublishEventAlpha1 ::
  "'e pubsub_api \<Rightarrow> BulkPublishRequestPb
     \<Rightarrow> (BulkPublishResponseFailedEntryPb list \<times> error option) \<times> pubsub_event list" where
  "BulkPublishEventAlpha1 a req =
     (case validateAndGetPubsubAndTopic a (bp_PubsubName req) (bp_Topic req) (bp_Metadata req) of
        Inl validationErr \<Rightarrow> (([], Some validationErr), [])
      | Inr (features, pubsubName, topic, rawPayload) \<Rightarrow>
          (case bulk_entries a pubsubName topic rawPayload features (bp_Metadata req) 0 {} []
                  (bp_Entries req) of
             (Inl err, spanMap, effects) \<Rightarrow> (([], Some err), effects)
           | (Inr entries, spanMap, effects) \<Rightarrow>
               let breq = \<lparr>bpr_PubsubName = pubsubName, bpr_Topic = topic, bpr_Entries = entries,
                           bpr_Metadata = bp_Metadata req\<rparr>
               in (case the (pubsubAdapter a) breq of
                     (failedEntries, err) \<Rightarrow>
                       let eventsPublished =
                             (if length failedEntries \<noteq> 0
                              then int (length entries) - int (length failedEntries)
                              else int (length entries));
                           effects' = effects @
                             [Dispatch_BulkPublish breq,
                              BulkPubsubEgressEvent pubsubName topic (err = None) eventsPublished]
                       in (case err of
                             Some e \<Rightarrow>
                               (let nerr = bulk_publish_error a pubsubName topic e
                                in (([], Some nerr), effects' @ closeChildSpans spanMap (Some nerr)))
                           | None \<Rightarrow>
                               ((map failed_entry failedEntries, None),
                                effects' @ closeChildSpans spanMap None)))))"


section \<open>Output bindings\<close>

definition TraceparentHeader :: string where
  "TraceparentHeader = ''traceparent''"

definition TracestateHeader :: string where
  "TracestateHeader = ''tracestate''"

definition BaggageHeader :: string where
  "BaggageHeader = ''baggage''"

definition metadataPrefix :: string where
  "metadataPrefix = ''metadata.''"

record InvokeBindingRequest =
  ib_Name :: string
  ib_Operation :: string
  ib_Data :: bytes
  ib_Metadata :: metadata

record InvokeRequest =
  ir_Metadata :: metadata
  ir_Operation :: string
  ir_Data :: bytes

text \<open>The metadata of a binding response is written to the headers one pair at a time,
  so it is kept as a list of pairs.\<close>

record InvokeResponse =
  resp_Data :: bytes
  resp_Metadata :: "(string \<times> string) list"

record InvokeBindingResponse =
  ibr_Data :: bytes
  ibr_Metadata :: "(string \<times> string) list"

text \<open>
  What \<^verbatim>\<open>InvokeBinding\<close> reads from its context: the W3C string of the span context, the
  W3C string of the trace state when the trace state is not empty, and the incoming gRPC
  metadata when there is one. Every key of gRPC metadata has at least one value; an
  entry is the key, the first value and the other values.
\<close>

record binding_ctx =
  ctx_traceparent :: string
  ctx_tracestate :: "string option"
  ctx_incomingMD :: "(string \<times> string \<times> string list) list option"

text \<open>What the gateway does to the outside while it serves a binding call: the call of
  the output binding, with the baggage put into its context, the metric and the
  response headers.\<close>

datatype 'b binding_event =
    SendToOutputBinding string InvokeRequest "'b option"
  | OutputBindingEvent string string bool
  | SetHeader string string

text \<open>The collaborators: \<^verbatim>\<open>baggage.Parse\<close> of OpenTelemetry over a baggage type \<open>'b\<close>,
  \<^verbatim>\<open>invokev1.ReservedGRPCMetadataToDaprPrefixHeader\<close> and the function that sends to the
  output binding.\<close>

record 'b binding_api =
  otelbaggage_Parse :: "string \<Rightarrow> goerr + 'b"
  ReservedGRPCMetadataToDaprPrefixHeader :: "string \<Rightarrow> string"
  sendToOutputBindingFn :: "string \<Rightarrow> InvokeRequest \<Rightarrow> 'b option \<Rightarrow> InvokeResponse option \<times> goerr option"

text \<open>\<^verbatim>\<open>strings.Join(values, ",")\<close>.\<close>

fun join_comma :: "string list \<Rightarrow> string" where
  "join_comma [] = []"
| "join_comma [x] = x"
| "join_comma (x # y # ys) = x @ '','' @ join_comma (y # ys)"

text \<open>The trace fields that the request metadata gets from the span when it does not
  have them. The span is not nil at the test of the code: its \<^verbatim>\<open>SpanContext\<close> has been
  called before.\<close>

definition span_metadata :: "binding_ctx \<Rightarrow> metadata \<Rightarrow> metadata" where
  "span_metadata ctx md =
     (let md1 = (if md TraceparentHeader = None then md(TraceparentHeader \<mapsto> ctx_traceparent ctx)
                 else md)
      in if md1 TracestateHeader = None then
           (case ctx_tracestate ctx of
              Some ts \<Rightarrow> md1(TracestateHeader \<mapsto> ts)
            | None \<Rightarrow> md1)
         else md1)"

text \<open>The loop over the incoming metadata. The code ranges over a Go map, in no fixed
  order; the model takes the entries in the order of the list.\<close>

fun copy_incoming :: "'b binding_api \<Rightarrow> (string \<times> string \<times> string list) list \<Rightarrow> metadata \<Rightarrow> metadata" where
  "copy_incoming a [] md = md"
| "copy_incoming a ((key, val0, vals) # rest) md =
     (let sanitizedKey = ReservedGRPCMetadataToDaprPrefixHeader a key
      in if md sanitizedKey = None \<or> (key = TraceparentHeader \<or> key = TracestateHeader)
         then copy_incoming a rest (md(sanitizedKey \<mapsto> val0))
         else copy_incoming a rest md)"

text \<open>The part of \<^verbatim>\<open>InvokeBinding\<close> from the call of the binding on.\<close>

definition invoke_output_binding ::
  "'b binding_api \<Rightarrow> InvokeBindingRequest \<Rightarrow> InvokeRequest \<Rightarrow> 'b option
     \<Rightarrow> (InvokeBindingResponse option \<times> error option) \<times> 'b binding_event list" where
  "invoke_output_binding a req r baggage =
     (case sendToOutputBindingFn a (ib_Name req) r baggage of
        (resp, err) \<Rightarrow>
          let effects =
                [SendToOutputBinding (ib_Name req) r baggage,
                 OutputBindingEvent (ib_Name req) (ib_Operation req) (err = None)]
                @ (case resp of
                     None \<Rightarrow> []
                   | Some rp \<Rightarrow> map (\<lambda>(k, v). SetHeader (metadataPrefix @ k) v) (resp_Metadata rp))
          in (case err of
                Some e \<Rightarrow>
                  ((Some \<lparr>ibr_Data = [], ibr_Metadata = []\<rparr>,
                    Some (Basic Internal StatusInternalServerError BindingInvokeOutputBinding
                            (Sprintf ErrInvokeOutputBinding [ib_Name req, Error_string e]))),
                   effects)
              | None \<Rightarrow>
                  (case resp of
                     None \<Rightarrow> ((Some \<lparr>ibr_Data = [], ibr_Metadata = []\<rparr>, None), effects)
                   | Some rp \<Rightarrow>
                       ((Some \<lparr>ibr_Data = resp_Data rp, ibr_Metadata = resp_Metadata rp\<rparr>, None),
                        effects))))"

definition InvokeBinding ::
  "'b binding_api \<Rightarrow> binding_ctx \<Rightarrow> InvokeBindingRequest
     \<Rightarrow> (InvokeBindingResponse option \<times> error option) \<times> 'b binding_event list" where
  "InvokeBinding a ctx req =
     (let md = span_metadata ctx (ib_Metadata req);
          r = \<lparr>ir_Metadata = md, ir_Operation = ib_Operation req, ir_Data = ib_Data req\<rparr>
      in case ctx_incomingMD ctx of
           None \<Rightarrow> invoke_output_binding a req r None
         | Some incomingMD \<Rightarrow>
             (case map_of incomingMD BaggageHeader of
                Some (v, vs) \<Rightarrow>
                  (let baggageString = join_comma (v # vs) in
                   case otelbaggage_Parse a baggageString of
                     Inl err \<Rightarrow> ((None, Some (Err err)), [])
                   | Inr baggage \<Rightarrow>
                       invoke_output_binding a req
                         (r\<lparr>ir_Metadata :=
                              copy_incoming a incomingMD (md(BaggageHeader \<mapsto> baggageString))\<rparr>)
                         (Some baggage))
              | None \<Rightarrow>
                  invoke_output_binding a req
                    (r\<lparr>ir_Metadata := copy_incoming a incomingMD md\<rparr>) None))"


section \<open>Configuration subscriptions\<close>

record Item =
  item_Value :: string
  item_Version :: string
  item_Metadata :: metadata

record UpdateEvent =
  ue_ID :: string
  ue_Items :: "string \<rightharpoonup> Item"

record ConfigurationItem =
  ci_Value :: string
  ci_Version :: string
  ci_Metadata :: metadata

record SubscribeConfigurationResponse =
  scr_Id :: string
  scr_Items :: "string \<rightharpoonup> ConfigurationItem"

record UnsubscribeConfigurationResponse =
  ucr_Ok :: bool
  ucr_Message :: "message option"

subsection \<open>The subscription table of the component store\<close>

text \<open>Modelled from the spec: the subscription table of the component store
  (\<^verbatim>\<open>pkg/runtime/compstore\<close>, not part of the sources), "a process-wide table indexed by
  id" whose entries hold the stop signal of a subscription. A stop channel is named by
  a number; the store keeps the table and the set of channels that were closed.\<close>

record ComponentStore =
  configurationSubscribes :: "string \<rightharpoonup> nat"
  closedChannels :: "nat set"

text \<open>Modelled from the spec: the lookup of a subscription in the table.\<close>

definition GetConfigurationSubscribe :: "ComponentStore \<Rightarrow> string \<Rightarrow> nat option" where
  "GetConfigurationSubscribe c name = configurationSubscribes c name"

text \<open>Modelled from the spec: a new subscription enters the table with its stop channel.\<close>

definition AddConfigurationSubscribe :: "ComponentStore \<Rightarrow> string \<Rightarrow> nat \<Rightarrow> ComponentStore" where
  "AddConfigurationSubscribe c name ch = c\<lparr>configurationSubscribes := (configurationSubscribes c)(name \<mapsto> ch)\<rparr>"

text \<open>Modelled from the spec: deleting a subscription flips its stop signal (the channel
  is closed) and removes the entry from the table.\<close>

definition DeleteConfigurationSubscribe :: "ComponentStore \<Rightarrow> string \<Rightarrow> ComponentStore" where
  "DeleteConfigurationSubscribe c name =
     (case configurationSubscribes c name of
        None \<Rightarrow> c
      | Some stop \<Rightarrow>
          c\<lparr>configurationSubscribes := (configurationSubscribes c)(name := None),
            closedChannels := insert stop (closedChannels c)\<rparr>)"

subsection \<open>UnsubscribeConfiguration\<close>

datatype config_event = RecordErrorCode errorcode | Warn string

definition UnsubscribeConfiguration ::
  "ComponentStore \<Rightarrow> string
     \<Rightarrow> (UnsubscribeConfigurationResponse \<times> error option) \<times> ComponentStore \<times> config_event list" where
  "UnsubscribeConfiguration c subscribeID =
     (case GetConfigurationSubscribe c subscribeID of
        None \<Rightarrow>
          ((\<lparr>ucr_Ok = False,
             ucr_Message = Some (Sprintf ErrConfigurationUnsubscribe
                                   [subscribeID, ''subscription does not exist''])\<rparr>, None),
           c, [RecordErrorCode ConfigurationUnsubscribe])
      | Some stop \<Rightarrow>
          ((\<lparr>ucr_Ok = True, ucr_Message = None\<rparr>, None),
           DeleteConfigurationSubscribe c subscribeID,
           [Warn ''Unsubscribing using UnsubscribeConfiguration is deprecated. Disconnect from the SubscribeConfiguration RPC instead.'']))"

subsection \<open>SubscribeConfiguration and the update handler\<close>

text \<open>
  \<^verbatim>\<open>SubscribeConfiguration\<close> runs in the goroutine of the call while the driver calls
  \<^verbatim>\<open>updateEventHandler\<close> from goroutines of its own, so the two are modelled as a
  transition system whose steps interleave. The goroutine of the call is at one of the
  following points; from \<open>SendID\<close> on the point carries the subscription id that the
  driver assigned. \<open>Exiting\<close> is a \<^verbatim>\<open>return\<close> whose deferred \<^verbatim>\<open>handler.ready()\<close> has not run
  yet, \<open>Returning\<close> the same after it ran, \<open>Returned\<close> the end of the call, when the stream
  is over; the three carry the id when \<^verbatim>\<open>Subscribe\<close> had succeeded.
\<close>

datatype call_point =
    GetStore
  | Subscribe
  | SendID string
  | AddSubscribe string
  | Ready string
  | Wait string
  | Unsubscribe string
  | DeleteSubscribe string
  | Exiting "string option"
  | Returning "string option"
  | Returned "string option"

text \<open>One call of \<^verbatim>\<open>updateEventHandler\<close>: blocked on \<^verbatim>\<open>readyCh\<close>, waiting for the lock,
  holding the lock before its \<^verbatim>\<open>Send\<close>, or finished.\<close>

datatype handler_point =
    AtGate UpdateEvent
  | AtLock UpdateEvent
  | Sending UpdateEvent
  | Finished

datatype sender = FromCall | FromHandler nat

text \<open>
  The state: the point of the call, \<^verbatim>\<open>readyClosed\<close> (the channel \<^verbatim>\<open>readyCh\<close> is closed
  exactly when the flag is set, since only \<^verbatim>\<open>ready()\<close> closes it), the handler's lock,
  the calls of the update handler made so far, the messages that the stream accepted,
  each with its sender, whether a failed \<^verbatim>\<open>Send\<close> has aborted the stream, and the ids in
  the subscription table.
\<close>

record subscription =
  call :: call_point
  readyClosed :: bool
  locked :: bool
  handlers :: "handler_point list"
  delivered :: "(sender \<times> SubscribeConfigurationResponse) list"
  aborted :: bool
  subscribes :: "string set"

definition initial :: subscription where
  "initial = \<lparr>call = GetStore, readyClosed = False, locked = False, handlers = [],
              delivered = [], aborted = False, subscribes = {}\<rparr>"

text \<open>The first message of the call and the message for an update.\<close>

definition id_message :: "string \<Rightarrow> SubscribeConfigurationResponse" where
  "id_message subscribeID = \<lparr>scr_Id = subscribeID, scr_Items = Map.empty\<rparr>"

definition update_message :: "UpdateEvent \<Rightarrow> SubscribeConfigurationResponse" where
  "update_message e =
     \<lparr>scr_Id = ue_ID e,
      scr_Items = (\<lambda>k. case ue_Items e k of
                          None \<Rightarrow> None
                        | Some v \<Rightarrow> Some \<lparr>ci_Value = item_Value v, ci_Version = item_Version v,
                                         ci_Metadata = item_Metadata v\<rparr>)\<rparr>"

text \<open>The stream takes a message as long as no \<^verbatim>\<open>Send\<close> has failed and the call has not
  returned.\<close>

fun stream_open :: "subscription \<Rightarrow> bool" where
  "stream_open s = (\<not> aborted s \<and> (case call s of Returned r \<Rightarrow> False | _ \<Rightarrow> True))"

text \<open>
  The steps. Those of the call follow \<^verbatim>\<open>SubscribeConfiguration\<close> statement by statement;
  the driver may call the update handler from the moment it has been given to
  \<^verbatim>\<open>Subscribe\<close>; a call of the handler waits for the gate, takes the lock, sends and
  releases the lock. Any \<^verbatim>\<open>Send\<close> may fail, which aborts the stream.
\<close>

inductive step :: "subscription \<Rightarrow> subscription \<Rightarrow> bool" where
  store_missing:
    "call s = GetStore \<Longrightarrow> step s (s\<lparr>call := Returned None\<rparr>)"
| store_found:
    "call s = GetStore \<Longrightarrow> step s (s\<lparr>call := Subscribe\<rparr>)"
| subscribe_failed:
    "call s = Subscribe \<Longrightarrow> step s (s\<lparr>call := Exiting None\<rparr>)"
| subscribe_ok:
    "call s = Subscribe \<Longrightarrow> step s (s\<lparr>call := SendID subscribeID\<rparr>)"
| send_id_ok:
    "call s = SendID subscribeID \<Longrightarrow> stream_open s \<Longrightarrow>
     step s (s\<lparr>call := AddSubscribe subscribeID,
               delivered := delivered s @ [(FromCall, id_message subscribeID)]\<rparr>)"
| send_id_failed:
    "call s = SendID subscribeID \<Longrightarrow>
     step s (s\<lparr>call := Exiting (Some subscribeID), aborted := True\<rparr>)"
| add_subscribe:
    "call s = AddSubscribe subscribeID \<Longrightarrow>
     step s (s\<lparr>call := Ready subscribeID, subscribes := insert subscribeID (subscribes s)\<rparr>)"
| ready:
    "call s = Ready subscribeID \<Longrightarrow> step s (s\<lparr>call := Wait subscribeID, readyClosed := True\<rparr>)"
| stopped:
    "call s = Wait subscribeID \<Longrightarrow> step s (s\<lparr>call := Unsubscribe subscribeID\<rparr>)"
| unsubscribe_failed:
    "call s = Unsubscribe subscribeID \<Longrightarrow> step s (s\<lparr>call := Exiting (Some subscribeID)\<rparr>)"
| unsubscribe_ok:
    "call s = Unsubscribe subscribeID \<Longrightarrow> step s (s\<lparr>call := DeleteSubscribe subscribeID\<rparr>)"
| delete_subscribe:
    "call s = DeleteSubscribe subscribeID \<Longrightarrow>
     step s (s\<lparr>call := Exiting (Some subscribeID), subscribes := subscribes s - {subscribeID}\<rparr>)"
| deferred_ready:
    "call s = Exiting r \<Longrightarrow> step s (s\<lparr>call := Returning r, readyClosed := True\<rparr>)"
| returned:
    "call s = Returning r \<Longrightarrow> step s (s\<lparr>call := Returned r\<rparr>)"
| update_arrives:
    "call s \<noteq> GetStore \<Longrightarrow> step s (s\<lparr>handlers := handlers s @ [AtGate e]\<rparr>)"
| gate_passed:
    "i < length (handlers s) \<Longrightarrow> handlers s ! i = AtGate e \<Longrightarrow> readyClosed s \<Longrightarrow>
     step s (s\<lparr>handlers := (handlers s)[i := AtLock e]\<rparr>)"
| lock_taken:
    "i < length (handlers s) \<Longrightarrow> handlers s ! i = AtLock e \<Longrightarrow> \<not> locked s \<Longrightarrow>
     step s (s\<lparr>handlers := (handlers s)[i := Sending e], locked := True\<rparr>)"
| update_sent:
    "i < length (handlers s) \<Longrightarrow> handlers s ! i = Sending e \<Longrightarrow> stream_open s \<Longrightarrow>
     step s (s\<lparr>handlers := (handlers s)[i := Finished], locked := False,
               delivered := delivered s @ [(FromHandler i, update_message e)]\<rparr>)"
| update_failed:
    "i < length (handlers s) \<Longrightarrow> handlers s ! i = Sending e \<Longrightarrow>
     step s (s\<lparr>handlers := (handlers s)[i := Finished], locked := False, aborted := True\<rparr>)"

inductive reachable :: "subscription \<Rightarrow> bool" where
  reach_initial: "reachable initial"
| reach_step: "reachable s \<Longrightarrow> step s t \<Longrightarrow> reachable t"

text \<open>The subscription id of a call, once the driver's \<^verbatim>\<open>Subscribe\<close> has succeeded.\<close>

fun subscribeID_of :: "call_point \<Rightarrow> string option" where
  "subscribeID_of GetStore = None"
| "subscribeID_of Subscribe = None"
| "subscribeID_of (SendID i) = Some i"
| "subscribeID_of (AddSubscribe i) = Some i"
| "subscribeID_of (Ready i) = Some i"
| "subscribeID_of (Wait i) = Some i"
| "subscribeID_of (Unsubscribe i) = Some i"
| "subscribeID_of (DeleteSubscribe i) = Some i"
| "subscribeID_of (Exiting r) = r"
| "subscribeID_of (Returning r) = r"
| "subscribeID_of (Returned r) = r"


section \<open>Status codes of the returned errors\<close>

text \<open>Modelled from the spec: the status codes of the errors that package
  \<^verbatim>\<open>apierrors\<close> (not part of the sources) builds for a pubsub, where the spec names the
  kind: a missing pubsub configuration is "NotConfigured" (the code
  \<open>FailedPrecondition\<close>, which the sources use for a missing configuration store), an
  unknown pubsub is "NotFound", a missing name or topic and a bad entry id are
  "InvalidArgument", a publish that the broker's access list refuses is "Forbidden".\<close>

fun PubSub_Code :: "pubsub_error \<Rightarrow> codes option" where
  "PubSub_Code NotConfigured = Some FailedPrecondition"
| "PubSub_Code NameEmpty = Some InvalidArgument"
| "PubSub_Code PubSubNotFound = Some NotFound"
| "PubSub_Code TopicEmpty = Some InvalidArgument"
| "PubSub_Code (MarshalEvents app err topic) = Some InvalidArgument"
| "PubSub_Code (PublishForbidden topic app err) = Some PermissionDenied"
| "PubSub_Code _ = None"

text \<open>Modelled from the spec: the status codes of the two errors that \<^verbatim>\<open>apierrors\<close>
  builds for a state store: a store without transactions is "NotSupported" (the code
  \<open>Unimplemented\<close>), too many operations are "InvalidArgument".\<close>

definition TransactionsNotSupported_Code :: codes where
  "TransactionsNotSupported_Code = Unimplemented"

definition TooManyTransactionalOps_Code :: codes where
  "TooManyTransactionalOps_Code = InvalidArgument"

text \<open>\<^verbatim>\<open>status.Code\<close> of gRPC on a returned error: the code of a status or kit error, and
  \<open>Unknown\<close> for an error that carries no status.\<close>

fun Code :: "error \<Rightarrow> codes option" where
  "Code (Basic c h ec m) = Some c"
| "Code (StatusErr c m) = Some c"
| "Code (Err (KitError c m)) = Some c"
| "Code (Err e) = Some Unknown"
| "Code (PubSub name e) = PubSub_Code e"
| "Code (TransactionsNotSupported name) = Some TransactionsNotSupported_Code"
| "Code (TooManyTransactionalOps name n m) = Some TooManyTransactionalOps_Code"
| "Code (PubSubOutbox app e) = None"

section \<open>Example collaborators\<close>

text \<open>A store named \<open>store1\<close> whose writes end with the given outcome and whose reads
  return the given data under the key they were asked for.\<close>

definition example_store :: "goerr option \<Rightarrow> bytes \<Rightarrow> StateStore" where
  "example_store outcome stored =
     \<lparr>store_Features = [FeatureTransactional], store_Transactional = True,
      store_MultiMaxSize = Some 2,
      store_BulkGet = (\<lambda>reqs p.
         (map (\<lambda>r. \<lparr>bgr_Key = get_Key r, bgr_Data = stored, bgr_ETag = None,
                     bgr_Metadata = Map.empty, bgr_Error = []\<rparr>) reqs, None)),
      store_Get = (\<lambda>r. (Some \<lparr>gr_Data = stored, gr_ETag = None, gr_Metadata = Map.empty\<rparr>, None)),
      store_Set = (\<lambda>reqs. outcome),
      store_Delete = (\<lambda>r. outcome),
      store_BulkDelete = (\<lambda>reqs. outcome),
      store_Multi = (\<lambda>r. outcome)\<rparr>"

text \<open>A cipher for the examples: the ciphertext is the plaintext behind a marker.\<close>

definition example_encrypt :: "bytes \<Rightarrow> goerr + bytes" where
  "example_encrypt b = Inr (''enc:'' @ b)"

definition example_decrypt :: "bytes \<Rightarrow> goerr + bytes" where
  "example_decrypt b =
     (if take 4 b = ''enc:'' then Inr (drop 4 b) else Inl (PlainError ''not a ciphertext''))"

text \<open>The state collaborators of an application \<open>app\<close> with the one store \<open>store1\<close>,
  encrypted or not: keys get the prefix \<open>app||\<close>.\<close>

definition example_state_api :: "bool \<Rightarrow> StateStore \<Rightarrow> state_api" where
  "example_state_api encrypted store =
     \<lparr>AppID = ''app'',
      GetStateStore = (\<lambda>name. if name = ''store1'' then Inr store
                               else Inl (StatusErr InvalidArgument ''state store is not found'')),
      GetModifiedStateKey = (\<lambda>key storeName appID. Inr (appID @ ''||'' @ key)),
      GetOriginalStateKey = (\<lambda>key. drop 5 key),
      EncryptedStateStore = (\<lambda>name. encrypted),
      TryEncryptValue = (\<lambda>name. example_encrypt),
      TryDecryptValue = (\<lambda>name. example_decrypt),
      json_Unmarshal = (\<lambda>b. Inr b),
      stateConsistencyToString = (\<lambda>c. if c = 1 then ''eventual'' else if c = 2 then ''strong'' else []),
      stateConcurrencyToString = (\<lambda>c. if c = 1 then ''first-write'' else if c = 2 then ''last-write'' else []),
      outbox_Enabled = (\<lambda>name. False),
      outbox_PublishInternal = (\<lambda>name ops. Inr ops)\<rparr>"

definition example_item :: "string \<Rightarrow> bytes \<Rightarrow> string option \<Rightarrow> StateItem" where
  "example_item k v etag =
     \<lparr>si_Key = k, si_Value = v, si_Etag = etag, si_Metadata = Map.empty, si_Options = None\<rparr>"

definition example_operation :: "string \<Rightarrow> string \<Rightarrow> bytes \<Rightarrow> TransactionalStateOperationPb" where
  "example_operation t k v = \<lparr>top_OperationType = t, top_Request = example_item k v None\<rparr>"

text \<open>The pubsub collaborators of the application \<open>app\<close> with the one pubsub \<open>ps1\<close>, for a
  given adapter and raw payload flag; an envelope is a byte string.\<close>

definition example_pubsub_api ::
  "(BulkPublishRequest \<Rightarrow> BulkPublishResponseFailedEntry list \<times> goerr option) option \<Rightarrow> bool
     \<Rightarrow> bytes pubsub_api" where
  "example_pubsub_api adapter raw =
     \<lparr>ps_AppID = ''app'', pubsubAdapter = adapter,
      GetPubSub = (\<lambda>name. if name = ''ps1'' then Some [] else None),
      IsRawPayload = (\<lambda>md. Inr raw),
      NewCloudEvent = (\<lambda>ce md. Inr (ce_Data ce)),
      ApplyMetadata = (\<lambda>envelope features md. envelope),
      json_Marshal = (\<lambda>envelope. Inr (''{data:'' @ envelope @ ''}'')),
      PopulateMetadataForBulkPublishEntry = (\<lambda>reqMeta entryMeta. reqMeta ++ entryMeta),
      TraceIDAndStateFromSpan = (\<lambda>i. ([], []))\<rparr>"

text \<open>The same collaborators with a cloud event builder that refuses an empty event.\<close>

definition example_strict_pubsub_api ::
  "(BulkPublishRequest \<Rightarrow> BulkPublishResponseFailedEntry list \<times> goerr option) option \<Rightarrow> bool
     \<Rightarrow> bytes pubsub_api" where
  "example_strict_pubsub_api adapter raw =
     (example_pubsub_api adapter raw)
       \<lparr>NewCloudEvent := (\<lambda>ce md. if ce_Data ce = [] then Inl (PlainError ''no data'')
                                   else Inr (ce_Data ce))\<rparr>"

definition example_entry :: "string \<Rightarrow> bytes \<Rightarrow> BulkPublishRequestEntry" where
  "example_entry entryId event =
     \<lparr>bpe_EntryId = entryId, bpe_Event = event, bpe_ContentType = ''text/plain'',
      bpe_Metadata = None\<rparr>"

text \<open>A broker that publishes every entry but \<open>b\<close>: the adapter reports the failed entry
  and, as for every publish that is not a full success, an error.\<close>

definition example_partial_failure ::
  "BulkPublishRequest \<Rightarrow> BulkPublishResponseFailedEntry list \<times> goerr option" where
  "example_partial_failure req =
     ([\<lparr>fe_EntryId = ''b'', fe_Error = Some (PlainError ''broker rejected the entry'')\<rparr>],
      Some (PlainError ''1 of 2 entries failed''))"

text \<open>Binding collaborators for the examples: a baggage is a string with an equals
  sign, no header name is reserved, and the binding answers \<open>ok\<close>.\<close>

definition example_binding_api :: "string binding_api" where
  "example_binding_api =
     \<lparr>otelbaggage_Parse = (\<lambda>s. if CHR ''='' \<in> set s then Inr s
                                else Inl (PlainError ''invalid baggage list-member'')),
      ReservedGRPCMetadataToDaprPrefixHeader = (\<lambda>key. key),
      sendToOutputBindingFn = (\<lambda>name r baggage. (Some \<lparr>resp_Data = ''ok'', resp_Metadata = []\<rparr>, None))\<rparr>"

definition example_binding_ctx :: "string \<Rightarrow> binding_ctx" where
  "example_binding_ctx baggage =
     \<lparr>ctx_traceparent = ''00-0af7651916cd43dd8448eb211c80319c-b7ad6b7169203331-01'',
      ctx_tracestate = None,
      ctx_incomingMD = Some [(''baggage'', baggage, [])]\<rparr>"

definition example_binding_request :: InvokeBindingRequest where
  "example_binding_request =
     \<lparr>ib_Name = ''queue'', ib_Operation = ''create'', ib_Data = ''hi'', ib_Metadata = Map.empty\<rparr>"

text \<open>A subscription table with the one subscription \<open>sub-1\<close>, whose stop channel is
  channel 7.\<close>

definition example_store_table :: ComponentStore where
  "example_store_table =
     \<lparr>configurationSubscribes = [''sub-1'' \<mapsto> 7], closedChannels = {}\<rparr>"

text \<open>An update of the key \<open>k1\<close> to the value \<open>v\<close>, and the state of a subscription
  \<open>sub-1\<close> that has delivered its id and that update and waits for its end.\<close>

definition example_update :: UpdateEvent where
  "example_update =
     \<lparr>ue_ID = ''sub-1'',
      ue_Items = [''k1'' \<mapsto> \<lparr>item_Value = ''v'', item_Version = ''1'', item_Metadata = Map.empty\<rparr>]\<rparr>"

definition example_subscription :: subscription where
  "example_subscription =
     \<lparr>call = Wait ''sub-1'', readyClosed = True, locked = False, handlers = [Finished],
      delivered = [(FromCall, id_message ''sub-1''), (FromHandler 0, update_message example_update)],
      aborted = False, subscribes = {''sub-1''}\<rparr>"

section \<open>The order of the messages of a subscription\<close>

text \<open>The property of the spec: the first message of the stream is the id message of
  the call, and every message after it comes from the update handler.\<close>

definition id_message_first :: "string \<Rightarrow> (sender \<times> SubscribeConfigurationResponse) list \<Rightarrow> bool" where
  "id_message_first subscribeID log =
     (case log of
        [] \<Rightarrow> True
      | m # rest \<Rightarrow> m = (FromCall, id_message subscribeID) \<and> (\<forall>x \<in> set rest. fst x \<noteq> FromCall))"

text \<open>The invariant of the transition system: while the gate is closed every call of
  the update handler is blocked on it, and the messages delivered so far are those
  that the point of the call allows.\<close>

definition gate_invariant :: "subscription \<Rightarrow> bool" where
  "gate_invariant s =
     ((\<not> readyClosed s \<longrightarrow> (\<forall>h \<in> set (handlers s). \<exists>e. h = AtGate e)) \<and>
      (case call s of
         GetStore \<Rightarrow> \<not> readyClosed s \<and> delivered s = []
       | Subscribe \<Rightarrow> \<not> readyClosed s \<and> delivered s = []
       | SendID i \<Rightarrow> \<not> readyClosed s \<and> delivered s = []
       | AddSubscribe i \<Rightarrow> \<not> readyClosed s \<and> delivered s = [(FromCall, id_message i)]
       | Ready i \<Rightarrow> \<not> readyClosed s \<and> delivered s = [(FromCall, id_message i)]
       | Wait i \<Rightarrow> delivered s \<noteq> [] \<and> id_message_first i (delivered s)
       | Unsubscribe i \<Rightarrow> delivered s \<noteq> [] \<and> id_message_first i (delivered s)
       | DeleteSubscribe i \<Rightarrow> delivered s \<noteq> [] \<and> id_message_first i (delivered s)
       | Exiting r \<Rightarrow>
           (case r of
              None \<Rightarrow> True
            | Some i \<Rightarrow> id_message_first i (delivered s) \<and> (delivered s = [] \<longrightarrow> aborted s))
       | Returning r \<Rightarrow>
           (case r of
              None \<Rightarrow> True
            | Some i \<Rightarrow> id_message_first i (delivered s) \<and> (delivered s = [] \<longrightarrow> aborted s))
       | Returned r \<Rightarrow>
           (case r of
              None \<Rightarrow> True
            | Some i \<Rightarrow> id_message_first i (delivered s) \<and> (delivered s = [] \<longrightarrow> aborted s))))"

section \<open>The etag taxonomy of the spec\<close>

text \<open>The error mapping as the spec words it, to compare with \<open>getStateErrorCode\<close>: an
  etag mismatch is "ConditionFailed" (the gRPC code \<open>Aborted\<close>), an invalid etag is
  "InvalidArgument", anything else is "Internal".\<close>

fun etag_taxonomy :: "goerr \<Rightarrow> codes" where
  "etag_taxonomy (ETagError ETagMismatch m) = Aborted"
| "etag_taxonomy (ETagError ETagInvalid m) = InvalidArgument"
| "etag_taxonomy e = Internal"


section \<open>Error mapping of state writes\<close>

lemma getStateErrorCode_taxonomy: "getStateErrorCode e = etag_taxonomy e"
  by (cases e rule: etag_taxonomy.cases) (simp_all add: getStateErrorCode_def split: goerr.splits etag_kind.splits)

lemma state_write_error_cases:
  "state_write_error ec tmpl arg e =
     (case FromError e of
        Some k \<Rightarrow> Err e
      | None \<Rightarrow> Basic (etag_taxonomy e) StatusInternalServerError ec (Sprintf tmpl [arg, Error_string e]))"
  by (simp add: state_write_error_def getStateErrorCode_taxonomy split: option.splits)

lemma SaveState_dispatch:
  assumes "GetStateStore a (ss_StoreName r) = Inr st"
    and "Dispatch_Set name reqs \<in> set (snd (SaveState a r))"
    and "store_Set st reqs = Some e"
  shows "snd (fst (SaveState a r)) = Some (state_write_error StateSave ErrStateSave (ss_StoreName r) e)"
  using assms
  by (auto simp: SaveState_def Let_def split: if_splits sum.splits option.splits)

lemma DeleteState_dispatch:
  assumes "GetStateStore a (ds_StoreName r) = Inr st"
    and "Dispatch_Delete name req \<in> set (snd (DeleteState a r))"
    and "store_Delete st req = Some e"
  shows "snd (fst (DeleteState a r)) = Some (state_write_error StateDelete ErrStateDelete (ds_Key r) e)"
  using assms
  by (auto simp: DeleteState_def Let_def split: if_splits sum.splits option.splits)

lemma DeleteBulkState_dispatch:
  assumes "GetStateStore a (dbs_StoreName r) = Inr st"
    and "Dispatch_BulkDelete name reqs \<in> set (snd (DeleteBulkState a r))"
    and "store_BulkDelete st reqs = Some e"
  shows "snd (fst (DeleteBulkState a r)) =
    Some (state_write_error StateBulkDelete ErrStateDeleteBulk (dbs_StoreName r) e)"
  using assms
  by (auto simp: DeleteBulkState_def Let_def split: if_splits sum.splits option.splits)

text \<open>
  Claim C9, as the code has it. When the dispatch of \<^verbatim>\<open>SaveState\<close>, \<^verbatim>\<open>DeleteState\<close> or
  \<^verbatim>\<open>DeleteBulkState\<close> fails with a driver error, a kit error is returned to the
  caller unchanged; every other error is returned with the code of the etag taxonomy
  (\<open>Aborted\<close>, the spec's "ConditionFailed", for an etag mismatch, \<open>InvalidArgument\<close>
  for an invalid etag, \<open>Internal\<close> for anything else) and with a templated message
  whose last argument is the driver's message.
\<close>

theorem state_write_error_mapping:
  "(GetStateStore a1 (ss_StoreName r1) = Inr st1 \<and>
      Dispatch_Set (ss_StoreName r1) reqs1 \<in> set (snd (SaveState a1 r1)) \<and>
      store_Set st1 reqs1 = Some e1 \<longrightarrow>
    snd (fst (SaveState a1 r1)) =
      Some (case FromError e1 of
              Some k \<Rightarrow> Err e1
            | None \<Rightarrow> Basic (etag_taxonomy e1) StatusInternalServerError StateSave
                       (Sprintf ErrStateSave [ss_StoreName r1, Error_string e1]))) \<and>
   (GetStateStore a2 (ds_StoreName r2) = Inr st2 \<and>
      Dispatch_Delete (ds_StoreName r2) req2 \<in> set (snd (DeleteState a2 r2)) \<and>
      store_Delete st2 req2 = Some e2 \<longrightarrow>
    snd (fst (DeleteState a2 r2)) =
      Some (case FromError e2 of
              Some k \<Rightarrow> Err e2
            | None \<Rightarrow> Basic (etag_taxonomy e2) StatusInternalServerError StateDelete
                       (Sprintf ErrStateDelete [ds_Key r2, Error_string e2]))) \<and>
   (GetStateStore a3 (dbs_StoreName r3) = Inr st3 \<and>
      Dispatch_BulkDelete (dbs_StoreName r3) reqs3 \<in> set (snd (DeleteBulkState a3 r3)) \<and>
      store_BulkDelete st3 reqs3 = Some e3 \<longrightarrow>
    snd (fst (DeleteBulkState a3 r3)) =
      Some (case FromError e3 of
              Some k \<Rightarrow> Err e3
            | None \<Rightarrow> Basic (etag_taxonomy e3) StatusInternalServerError StateBulkDelete
                       (Sprintf ErrStateDeleteBulk [dbs_StoreName r3, Error_string e3])))"
  using SaveState_dispatch [of a1 r1 st1 "ss_StoreName r1" reqs1 e1]
    DeleteState_dispatch [of a2 r2 st2 "ds_StoreName r2" req2 e2]
    DeleteBulkState_dispatch [of a3 r3 st3 "dbs_StoreName r3" reqs3 e3]
  by (simp add: state_write_error_cases)

text \<open>The mapping at work: a save on an etag mismatch, a delete with an invalid etag
  and a bulk delete that times out.\<close>

theorem state_write_error_mapping_witness:
  "snd (fst (SaveState (example_state_api False (example_store (Some (ETagError ETagMismatch ''etag mismatch'')) []))
        \<lparr>ss_StoreName = ''store1'', ss_States = [example_item ''k'' ''v'' (Some ''1'')]\<rparr>)) =
     Some (Basic Aborted StatusInternalServerError StateSave
             (Sprintf ErrStateSave [''store1'', ''etag mismatch''])) \<and>
   snd (fst (DeleteState (example_state_api False (example_store (Some (ETagError ETagInvalid ''etag invalid'')) []))
        \<lparr>ds_StoreName = ''store1'', ds_Key = ''k'', ds_Etag = Some ''x'', ds_Options = None,
          ds_Metadata = Map.empty\<rparr>)) =
     Some (Basic InvalidArgument StatusInternalServerError StateDelete
             (Sprintf ErrStateDelete [''k'', ''etag invalid''])) \<and>
   snd (fst (DeleteBulkState (example_state_api False (example_store (Some (PlainError ''timeout'')) []))
        \<lparr>dbs_StoreName = ''store1'', dbs_States = [example_item ''k'' [] None]\<rparr>)) =
     Some (Basic Internal StatusInternalServerError StateBulkDelete
             (Sprintf ErrStateDeleteBulk [''store1'', ''timeout'']))"
  using state_write_error_mapping
    [of "example_state_api False (example_store (Some (ETagError ETagMismatch ''etag mismatch'')) [])"
        "\<lparr>ss_StoreName = ''store1'', ss_States = [example_item ''k'' ''v'' (Some ''1'')]\<rparr>"
        "example_store (Some (ETagError ETagMismatch ''etag mismatch'')) []"
        "[\<lparr>set_Key = ''app||k'', set_Value = Bytes ''v'', set_ETag = Some ''1'',
           set_Metadata = Map.empty, set_Concurrency = [], set_Consistency = []\<rparr>]"
        "ETagError ETagMismatch ''etag mismatch''"
        "example_state_api False (example_store (Some (ETagError ETagInvalid ''etag invalid'')) [])"
        "\<lparr>ds_StoreName = ''store1'', ds_Key = ''k'', ds_Etag = Some ''x'', ds_Options = None,
          ds_Metadata = Map.empty\<rparr>"
        "example_store (Some (ETagError ETagInvalid ''etag invalid'')) []"
        "\<lparr>del_Key = ''app||k'', del_ETag = Some ''x'', del_Metadata = Map.empty,
          del_Concurrency = [], del_Consistency = []\<rparr>"
        "ETagError ETagInvalid ''etag invalid''"
        "example_state_api False (example_store (Some (PlainError ''timeout'')) [])"
        "\<lparr>dbs_StoreName = ''store1'', dbs_States = [example_item ''k'' [] None]\<rparr>"
        "example_store (Some (PlainError ''timeout'')) []"
        "[\<lparr>del_Key = ''app||k'', del_ETag = None, del_Metadata = Map.empty,
           del_Concurrency = [], del_Consistency = []\<rparr>]"
        "PlainError ''timeout''"]
  by (simp add: example_state_api_def example_store_def example_item_def SaveState_def
      DeleteState_def DeleteBulkState_def save_request_def set_options_def ContentType_def
      JSONContentType_def Let_def state_write_error_def getStateErrorCode_def)

text \<open>
  Claim C9 as the spec states it fails for a kit error: the taxonomy puts the error of
  a store that is down under \<open>Internal\<close>, and \<^verbatim>\<open>SaveState\<close> returns it as it is, with its
  own code.
\<close>

theorem state_write_kit_error_counterexample:
  "getStateErrorCode (KitError Unavailable ''store down'') = Internal \<and>
   SaveState (example_state_api False (example_store (Some (KitError Unavailable ''store down'')) []))
        \<lparr>ss_StoreName = ''store1'', ss_States = [example_item ''k'' ''v'' None]\<rparr> =
     (((), Some (Err (KitError Unavailable ''store down''))),
      [Dispatch_Set ''store1''
         [\<lparr>set_Key = ''app||k'', set_Value = Bytes ''v'', set_ETag = None,
           set_Metadata = Map.empty, set_Concurrency = [], set_Consistency = []\<rparr>],
       StateInvoked ''store1'' diag_Set False]) \<and>
   Code (Err (KitError Unavailable ''store down'')) = Some Unavailable"
  by (simp add: example_state_api_def example_store_def example_item_def SaveState_def
      save_request_def set_options_def ContentType_def JSONContentType_def Let_def
      state_write_error_def getStateErrorCode_def)

section \<open>Empty request lists\<close>

text \<open>\<^verbatim>\<open>GetBulkState\<close> and \<^verbatim>\<open>SaveState\<close> answer an empty list on a configured store at
  once, with no effect; \<^verbatim>\<open>DeleteBulkState\<close> has no such check and hands the empty list to
  the store.\<close>

lemma GetBulkState_empty_keys:
  "GetStateStore a (gbs_StoreName r) = Inr st \<Longrightarrow> gbs_Keys r = [] \<Longrightarrow>
   GetBulkState a r = (([], None), [])"
  by (simp add: GetBulkState_def)

lemma SaveState_empty_states:
  "GetStateStore a (ss_StoreName r) = Inr st \<Longrightarrow> ss_States r = [] \<Longrightarrow>
   SaveState a r = (((), None), [])"
  by (simp add: SaveState_def)

lemma DeleteBulkState_empty_states:
  "GetStateStore a (dbs_StoreName r) = Inr st \<Longrightarrow> dbs_States r = [] \<Longrightarrow>
   snd (DeleteBulkState a r) =
     [Dispatch_BulkDelete (dbs_StoreName r) [],
      StateInvoked (dbs_StoreName r) diag_BulkDelete (store_BulkDelete st [] = None)]"
  by (simp add: DeleteBulkState_def Let_def split: option.splits)

text \<open>
  Claim C7 at an empty \<^verbatim>\<open>DeleteBulkState\<close> on the configured store \<open>store1\<close>: the empty
  list of requests is dispatched, the metric is recorded, and the failure of the store
  comes back as the error of the call.
\<close>

theorem DeleteBulkState_empty_list_dispatches:
  "DeleteBulkState (example_state_api False (example_store (Some (PlainError ''timeout'')) []))
        \<lparr>dbs_StoreName = ''store1'', dbs_States = []\<rparr> =
     (((), Some (Basic Internal StatusInternalServerError StateBulkDelete
                   (Sprintf ErrStateDeleteBulk [''store1'', ''timeout'']))),
      [Dispatch_BulkDelete ''store1'' [], StateInvoked ''store1'' diag_BulkDelete False])"
  by (simp add: example_state_api_def example_store_def DeleteBulkState_def Let_def
      state_write_error_def getStateErrorCode_def)

section \<open>Key rewriting in GetBulkState\<close>

lemma bulk_get_requests_keys:
  "bulk_get_requests a name md ks = Inr reqs \<Longrightarrow>
   list_all2 (\<lambda>k q. GetModifiedStateKey a k name (AppID a) = Inr (get_Key q)) ks reqs"
  by (induction ks arbitrary: reqs) (auto split: sum.splits)

lemma decrypt_item_key: "bsi_Key (decrypt_item a name item) = bsi_Key item"
  by (simp add: decrypt_item_def split: sum.splits)

lemma bulk_item_key: "bsi_Key (bulk_item a x) = GetOriginalStateKey a (bgr_Key x)"
  by (simp add: bulk_item_def)

lemma GetBulkState_dispatched:
  assumes "Dispatch_BulkGet name reqs p \<in> set (snd (GetBulkState a r))"
  shows "name = gbs_StoreName r \<and> p = gbs_Parallelism r \<and>
         bulk_get_requests a (gbs_StoreName r) (gbs_Metadata r) (gbs_Keys r) = Inr reqs"
  using assms
  by (auto simp: GetBulkState_def Let_def split: sum.splits if_splits prod.splits option.splits)

lemma GetBulkState_items:
  assumes "GetStateStore a (gbs_StoreName r) = Inr st"
    and "bulk_get_requests a (gbs_StoreName r) (gbs_Metadata r) (gbs_Keys r) = Inr reqs"
    and "gbs_Keys r \<noteq> []"
    and "store_BulkGet st reqs (gbs_Parallelism r) = (rs, None)"
  shows "map bsi_Key (fst (fst (GetBulkState a r))) = map (\<lambda>x. GetOriginalStateKey a (bgr_Key x)) rs"
  using assms
  by (simp add: GetBulkState_def Let_def decrypt_item_key bulk_item_key comp_def)

lemma GetBulkState_not_dispatched:
  assumes "\<forall>name reqs p. Dispatch_BulkGet name reqs p \<notin> set (snd (GetBulkState a r))"
  shows "fst (fst (GetBulkState a r)) = []"
  using assms
  by (auto simp: GetBulkState_def Let_def split: sum.splits if_splits prod.splits option.splits)

lemma list_all2_rewrite_reverse:
  assumes "list_all2 (\<lambda>k q. rw k = Inr (get_Key q)) ks reqs"
    and "\<forall>k k'. rw k = Inr k' \<longrightarrow> rv k' = k"
  shows "map (\<lambda>q. rv (get_Key q)) reqs = ks"
  using assms by (induction ks reqs rule: list_all2_induct) auto

text \<open>
  Claim C6. Whenever \<^verbatim>\<open>GetBulkState\<close> dispatches to the store, the request goes to the
  store of the call and its keys are, in order, the rewritten forms of the requested
  keys. When the store answers, the keys of the items returned to the caller are, in
  order, the keys of the store's answers taken through \<open>GetOriginalStateKey\<close>; so they
  are the requested keys when the store answers under the keys it was asked for and
  \<open>GetOriginalStateKey\<close> reverses the rewrite. A call that dispatches nothing returns no
  item.
\<close>

theorem GetBulkState_keys:
  "(Dispatch_BulkGet name reqs p \<in> set (snd (GetBulkState a r)) \<longrightarrow>
      name = gbs_StoreName r \<and>
      list_all2 (\<lambda>k q. GetModifiedStateKey a k (gbs_StoreName r) (AppID a) = Inr (get_Key q))
        (gbs_Keys r) reqs \<and>
      (GetStateStore a (gbs_StoreName r) = Inr st \<and> store_BulkGet st reqs p = (rs, None) \<longrightarrow>
         map bsi_Key (fst (fst (GetBulkState a r))) =
           map (\<lambda>x. GetOriginalStateKey a (bgr_Key x)) rs \<and>
         (map bgr_Key rs = map get_Key reqs \<and>
          (\<forall>k k'. GetModifiedStateKey a k (gbs_StoreName r) (AppID a) = Inr k' \<longrightarrow>
                     GetOriginalStateKey a k' = k) \<longrightarrow>
          map bsi_Key (fst (fst (GetBulkState a r))) = gbs_Keys r))) \<and>
   ((\<forall>name' reqs' p'. Dispatch_BulkGet name' reqs' p' \<notin> set (snd (GetBulkState a r))) \<longrightarrow>
      fst (fst (GetBulkState a r)) = [])"
proof (intro conjI impI)
  assume d: "Dispatch_BulkGet name reqs p \<in> set (snd (GetBulkState a r))"
  from GetBulkState_dispatched [OF d]
  have n: "name = gbs_StoreName r" and p: "p = gbs_Parallelism r"
    and q: "bulk_get_requests a (gbs_StoreName r) (gbs_Metadata r) (gbs_Keys r) = Inr reqs"
    by simp_all
  show "name = gbs_StoreName r" by (rule n)
  show rw: "list_all2 (\<lambda>k q. GetModifiedStateKey a k (gbs_StoreName r) (AppID a) = Inr (get_Key q))
        (gbs_Keys r) reqs"
    by (rule bulk_get_requests_keys [OF q])
  have ne: "gbs_Keys r \<noteq> []"
    using d by (auto simp: GetBulkState_def split: sum.splits if_splits)
  {
    assume s: "GetStateStore a (gbs_StoreName r) = Inr st \<and> store_BulkGet st reqs p = (rs, None)"
    then show items: "map bsi_Key (fst (fst (GetBulkState a r))) =
           map (\<lambda>x. GetOriginalStateKey a (bgr_Key x)) rs"
      using GetBulkState_items [of a r st reqs rs] q ne p by simp
    assume e: "map bgr_Key rs = map get_Key reqs \<and>
          (\<forall>k k'. GetModifiedStateKey a k (gbs_StoreName r) (AppID a) = Inr k' \<longrightarrow>
                     GetOriginalStateKey a k' = k)"
    have "map (\<lambda>x. GetOriginalStateKey a (bgr_Key x)) rs = map (GetOriginalStateKey a) (map bgr_Key rs)"
      by simp
    also have "\<dots> = map (\<lambda>q. GetOriginalStateKey a (get_Key q)) reqs"
      using e by simp
    also have "\<dots> = gbs_Keys r"
      using list_all2_rewrite_reverse [OF rw] e by blast
    finally show "map bsi_Key (fst (fst (GetBulkState a r))) = gbs_Keys r"
      using items by simp
  }
next
  assume "\<forall>name' reqs' p'. Dispatch_BulkGet name' reqs' p' \<notin> set (snd (GetBulkState a r))"
  then show "fst (fst (GetBulkState a r)) = []"
    by (rule GetBulkState_not_dispatched)
qed

text \<open>Two keys of the application \<open>app\<close>: the store sees \<open>app||k1\<close> and \<open>app||k2\<close>, the
  caller gets \<open>k1\<close> and \<open>k2\<close> back.\<close>

theorem GetBulkState_keys_witness:
  "Dispatch_BulkGet ''store1''
     [\<lparr>get_Key = ''app||k1'', get_Metadata = Map.empty, get_Consistency = []\<rparr>,
      \<lparr>get_Key = ''app||k2'', get_Metadata = Map.empty, get_Consistency = []\<rparr>] 0
     \<in> set (snd (GetBulkState (example_state_api False (example_store None ''data''))
          \<lparr>gbs_StoreName = ''store1'', gbs_Keys = [''k1'', ''k2''], gbs_Parallelism = 0,
            gbs_Metadata = Map.empty\<rparr>)) \<and>
   map bsi_Key (fst (fst (GetBulkState (example_state_api False (example_store None ''data''))
          \<lparr>gbs_StoreName = ''store1'', gbs_Keys = [''k1'', ''k2''], gbs_Parallelism = 0,
            gbs_Metadata = Map.empty\<rparr>))) = [''k1'', ''k2'']"
  using GetBulkState_keys
    [of "''store1''"
        "[\<lparr>get_Key = ''app||k1'', get_Metadata = Map.empty, get_Consistency = []\<rparr>,
          \<lparr>get_Key = ''app||k2'', get_Metadata = Map.empty, get_Consistency = []\<rparr>]"
        0
        "example_state_api False (example_store None ''data'')"
        "\<lparr>gbs_StoreName = ''store1'', gbs_Keys = [''k1'', ''k2''], gbs_Parallelism = 0,
          gbs_Metadata = Map.empty\<rparr>"
        "example_store None ''data''"
        "[\<lparr>bgr_Key = ''app||k1'', bgr_Data = ''data'', bgr_ETag = None,
           bgr_Metadata = Map.empty, bgr_Error = []\<rparr>,
          \<lparr>bgr_Key = ''app||k2'', bgr_Data = ''data'', bgr_ETag = None,
           bgr_Metadata = Map.empty, bgr_Error = []\<rparr>]"]
  by (simp add: example_state_api_def example_store_def GetBulkState_def Let_def bulk_item_def)


section \<open>The size bound of a transaction\<close>

lemma transaction_operations_length:
  "transaction_operations a name ops = Inr ops' \<Longrightarrow> length ops' = length ops"
  by (induction ops arbitrary: ops') (auto split: sum.splits)

lemma transaction_operations_supported:
  assumes "\<forall>op \<in> set ops.
             (top_OperationType op = OperationUpsert \<or> top_OperationType op = OperationDelete) \<and>
             (\<exists>k. GetModifiedStateKey a (si_Key (top_Request op)) name (AppID a) = Inr k)"
  shows "\<exists>ops'. transaction_operations a name ops = Inr ops'"
  using assms
proof (induction ops)
  case Nil
  then show ?case by simp
next
  case (Cons op ops)
  then obtain k where "GetModifiedStateKey a (si_Key (top_Request op)) name (AppID a) = Inr k"
    by auto
  moreover have "top_OperationType op = OperationUpsert \<or> top_OperationType op = OperationDelete"
    using Cons.prems by simp
  ultimately have "\<exists>x. transaction_operation a name op = Inr x"
    by (auto simp: transaction_operation_def Let_def)
  then obtain x where "transaction_operation a name op = Inr x" ..
  moreover obtain ops' where "transaction_operations a name ops = Inr ops'"
    using Cons by auto
  ultimately show ?case by simp
qed

text \<open>
  Claim C4, as the code has it. On a store that advertises a maximum of \<open>m > 0\<close>
  operations, a transaction of more than \<open>m\<close> operations fails and has no effect at all:
  no outbox publish, no \<^verbatim>\<open>Multi\<close>, no metric. The error is the one for too many
  operations, an \<open>InvalidArgument\<close>, when the store is transactional and every operation
  is an upsert or a delete with a key that the rewriter accepts; otherwise the call has
  failed before the size check, with the error of that earlier check.
\<close>

theorem ExecuteStateTransaction_too_many_operations:
  assumes "GetStateStore a (est_StoreName r) = Inr st"
    and "store_MultiMaxSize st = Some m"
    and "0 < m"
    and "m < int (length (est_Operations r))"
  shows "(\<exists>err. snd (fst (ExecuteStateTransaction a r)) = Some err) \<and>
         snd (ExecuteStateTransaction a r) = [] \<and>
         (store_Transactional st \<and> FeatureTransactional \<in> set (store_Features st) \<and>
          (\<forall>op \<in> set (est_Operations r).
             (top_OperationType op = OperationUpsert \<or> top_OperationType op = OperationDelete) \<and>
             (\<exists>k. GetModifiedStateKey a (si_Key (top_Request op)) (est_StoreName r) (AppID a) = Inr k)) \<longrightarrow>
          snd (fst (ExecuteStateTransaction a r)) =
            Some (TooManyTransactionalOps (est_StoreName r) (int (length (est_Operations r))) m) \<and>
          Code (TooManyTransactionalOps (est_StoreName r) (int (length (est_Operations r))) m) =
            Some InvalidArgument)"
proof (cases "\<not> store_Transactional st \<or> FeatureTransactional \<notin> set (store_Features st)")
  case True
  then show ?thesis
    using assms by (auto simp: ExecuteStateTransaction_def)
next
  case False
  show ?thesis
  proof (cases "transaction_operations a (est_StoreName r) (est_Operations r)")
    case (Inl err)
    moreover have "\<not> (\<forall>op \<in> set (est_Operations r).
             (top_OperationType op = OperationUpsert \<or> top_OperationType op = OperationDelete) \<and>
             (\<exists>k. GetModifiedStateKey a (si_Key (top_Request op)) (est_StoreName r) (AppID a) = Inr k))"
      using transaction_operations_supported [of "est_Operations r" a "est_StoreName r"] Inl by auto
    ultimately show ?thesis
      using assms False by (auto simp: ExecuteStateTransaction_def)
  next
    case (Inr ops)
    then have "length ops = length (est_Operations r)"
      by (rule transaction_operations_length)
    then show ?thesis
      using assms False Inr
      by (simp add: ExecuteStateTransaction_def TooManyTransactionalOps_Code_def)
  qed
qed

text \<open>Three operations on a store that takes two.\<close>

theorem ExecuteStateTransaction_too_many_operations_witness:
  "ExecuteStateTransaction (example_state_api False (example_store None []))
     \<lparr>est_StoreName = ''store1'',
      est_Operations = [example_operation ''upsert'' ''k1'' ''v'', example_operation ''delete'' ''k2'' [],
                        example_operation ''upsert'' ''k3'' ''w''],
      est_Metadata = Map.empty\<rparr> =
   (((), Some (TooManyTransactionalOps ''store1'' 3 2)), []) \<and>
   Code (TooManyTransactionalOps ''store1'' 3 2) = Some InvalidArgument"
  using ExecuteStateTransaction_too_many_operations
    [of "example_state_api False (example_store None [])"
        "\<lparr>est_StoreName = ''store1'',
          est_Operations = [example_operation ''upsert'' ''k1'' ''v'', example_operation ''delete'' ''k2'' [],
                            example_operation ''upsert'' ''k3'' ''w''],
          est_Metadata = Map.empty\<rparr>"
        "example_store None []" 2]
  by (simp add: example_state_api_def example_store_def example_operation_def OperationUpsert_def
      OperationDelete_def FeatureTransactional_def prod_eq_iff)

text \<open>
  Claim C4 as the spec states it fails when an operation of the oversized list has a
  type that the gateway does not know: the call ends in the loop over the operations,
  with \<open>Unimplemented\<close>, before the size is looked at.
\<close>

theorem ExecuteStateTransaction_unsupported_operation_counterexample:
  "store_MultiMaxSize (example_store None []) = Some 2 \<and>
   ExecuteStateTransaction (example_state_api False (example_store None []))
     \<lparr>est_StoreName = ''store1'',
      est_Operations = [example_operation ''upsert'' ''k1'' ''v'', example_operation ''merge'' ''k2'' [],
                        example_operation ''upsert'' ''k3'' ''w''],
      est_Metadata = Map.empty\<rparr> =
   (((), Some (Basic Unimplemented StatusInternalServerError StateNotSupportedOperation
                 (Sprintf ErrNotSupportedStateOperation [''merge'']))), []) \<and>
   Code (Basic Unimplemented StatusInternalServerError StateNotSupportedOperation
           (Sprintf ErrNotSupportedStateOperation [''merge''])) = Some Unimplemented"
  by (simp add: ExecuteStateTransaction_def example_state_api_def example_store_def
      example_operation_def example_item_def transaction_operation_def OperationUpsert_def
      OperationDelete_def FeatureTransactional_def Let_def)


section \<open>Encryption of state values\<close>

lemma SaveState_round_trip_example:
  "snd (SaveState (example_state_api True (example_store None []))
     \<lparr>ss_StoreName = ''store1'', ss_States = [example_item ''k'' ''hi'' None]\<rparr>) =
     [Dispatch_Set ''store1''
        [\<lparr>set_Key = ''app||k'', set_Value = Bytes ''enc:hi'', set_ETag = None,
          set_Metadata = Map.empty, set_Concurrency = [], set_Consistency = []\<rparr>],
      StateInvoked ''store1'' diag_Set True] \<and>
   fst (GetState (example_state_api True (example_store None ''enc:hi''))
     \<lparr>gs_StoreName = ''store1'', gs_Key = ''k'', gs_Consistency = 0, gs_Metadata = Map.empty\<rparr>) =
     (\<lparr>gsr_Data = ''hi'', gsr_Etag = [], gsr_Metadata = Map.empty\<rparr>, None)"
  by (simp add: SaveState_def save_request_def GetState_def example_state_api_def example_store_def
      example_item_def Let_def set_options_def example_encrypt_def ContentType_def JSONContentType_def
      example_decrypt_def stringValueOrEmpty_def)

lemma save_request_encrypted:
  assumes "EncryptedStateStore a name" and "save_request a name s = Inr q"
  shows "\<exists>c. TryEncryptValue a name (si_Value s) = Inr c \<and> set_Value q = Bytes c"
  using assms
  by (auto simp: save_request_def Let_def split: if_splits sum.splits)

lemma GetState_decrypted:
  assumes "GetStateStore a (gs_StoreName r) = Inr st"
    and "GetModifiedStateKey a (gs_Key r) (gs_StoreName r) (AppID a) = Inr key"
    and "store_Get st \<lparr>get_Key = key, get_Metadata = gs_Metadata r,
                        get_Consistency = stateConsistencyToString a (gs_Consistency r)\<rparr> =
           (Some g, None)"
    and "EncryptedStateStore a (gs_StoreName r)"
    and "TryDecryptValue a (gs_StoreName r) (gr_Data g) = Inr p"
  shows "gsr_Data (fst (fst (GetState a r))) = p \<and> snd (fst (GetState a r)) = None"
  using assms by (simp add: GetState_def Let_def)

lemma encrypt_operations_upsert:
  assumes "encrypt_operations a name ops = Inr ops'" and "SetOp q \<in> set ops'"
  shows "\<exists>q0 c. SetOp q0 \<in> set ops \<and> TryEncryptValue a name (Sprintf_v (set_Value q0)) = Inr c \<and>
                 set_Value q = Bytes c"
  using assms
proof (induction ops arbitrary: ops')
  case Nil
  then show ?case by simp
next
  case (Cons op ops)
  show ?case
  proof (cases op)
    case (DeleteOp d)
    with Cons.prems obtain ops1 where "encrypt_operations a name ops = Inr ops1" "SetOp q \<in> set ops1"
      by (auto split: sum.splits)
    from Cons.IH [OF this] show ?thesis by auto
  next
    case (SetOp req)
    with Cons.prems obtain c ops1 where c: "TryEncryptValue a name (Sprintf_v (set_Value req)) = Inr c"
      and o: "encrypt_operations a name ops = Inr ops1"
      and q: "q = req\<lparr>set_Value := Bytes c\<rparr> \<or> SetOp q \<in> set ops1"
      by (auto simp: Let_def split: sum.splits)
    from q show ?thesis
    proof
      assume "q = req\<lparr>set_Value := Bytes c\<rparr>"
      with c SetOp show ?thesis by auto
    next
      assume "SetOp q \<in> set ops1"
      from Cons.IH [OF o this] show ?thesis by auto
    qed
  qed
qed

lemma decimal_not_empty: "decimal n \<noteq> []"
  by (subst decimal.simps) simp

lemma length_join_space: "\<forall>x \<in> set xs. x \<noteq> [] \<Longrightarrow> length xs \<le> length (join_space xs)"
proof (induction xs rule: join_space.induct)
  case 1
  then show ?case by simp
next
  case (2 x)
  then show ?case by (cases x) simp_all
next
  case (3 x y ys)
  then show ?case by (cases x) simp_all
qed

lemma Sprintf_v_bytes_longer: "length b < length (Sprintf_v (Bytes b))"
proof -
  have "length (map (\<lambda>c. decimal (of_char c)) b) \<le> length (join_space (map (\<lambda>c. decimal (of_char c)) b))"
    by (rule length_join_space) (simp add: decimal_not_empty)
  then show ?thesis by simp
qed

lemma Sprintf_v_bytes_differs: "Sprintf_v (Bytes b) \<noteq> b"
  using Sprintf_v_bytes_longer [of b] by (metis less_irrefl)

lemma transaction_operation_upsert_value:
  assumes "transaction_operation a name op = Inr (SetOp q)"
  shows "set_Value q = Bytes (si_Value (top_Request op))"
  using assms
  by (auto simp: transaction_operation_def Let_def split: sum.splits if_splits)

lemma transaction_operations_upsert_value:
  assumes "transaction_operations a name ops = Inr ops'" and "SetOp q \<in> set ops'"
  shows "\<exists>op \<in> set ops. set_Value q = Bytes (si_Value (top_Request op))"
  using assms
proof (induction ops arbitrary: ops')
  case Nil
  then show ?case by simp
next
  case (Cons op ops)
  from Cons.prems obtain x xs where x: "transaction_operation a name op = Inr x"
    and xs: "transaction_operations a name ops = Inr xs" and o: "ops' = x # xs"
    by (auto split: sum.splits)
  show ?case
  proof (cases "SetOp q = x")
    case True
    with x show ?thesis
      using transaction_operation_upsert_value [of a name op q] by simp
  next
    case False
    with Cons.prems o have "SetOp q \<in> set xs" by simp
    from Cons.IH [OF xs this] show ?thesis by auto
  qed
qed

text \<open>In a transaction on an encrypted store, every upsert that reaches the store carries
  the ciphertext of the printed form of the submitted bytes, and the printed form is
  never the bytes themselves.\<close>

lemma transaction_encrypts_rendering:
  assumes "transaction_operations a name ops = Inr ops1"
    and "encrypt_operations a name ops1 = Inr ops2"
    and "SetOp q \<in> set ops2"
  shows "\<exists>op \<in> set ops. \<exists>c.
           TryEncryptValue a name (Sprintf_v (Bytes (si_Value (top_Request op)))) = Inr c \<and>
           set_Value q = Bytes c \<and>
           Sprintf_v (Bytes (si_Value (top_Request op))) \<noteq> si_Value (top_Request op)"
proof -
  from encrypt_operations_upsert [OF assms(2,3)] obtain q0 c where
    q0: "SetOp q0 \<in> set ops1" and c: "TryEncryptValue a name (Sprintf_v (set_Value q0)) = Inr c"
    and v: "set_Value q = Bytes c"
    by blast
  from transaction_operations_upsert_value [OF assms(1) q0] obtain op where
    "op \<in> set ops" "set_Value q0 = Bytes (si_Value (top_Request op))"
    by blast
  with c v show ?thesis
    by (auto simp: Sprintf_v_bytes_differs simp del: Sprintf_v.simps)
qed

text \<open>
  Claim C3 at an upsert of the value \<open>hi\<close> in a transaction on the encrypted store
  \<open>store1\<close>: what is encrypted and dispatched is the value printed with \<^verbatim>\<open>%v\<close>, the text
  \<open>[104 105]\<close>, and a later \<^verbatim>\<open>GetState\<close> of the key decrypts to that text, not to \<open>hi\<close>.
  \<^verbatim>\<open>SaveState\<close> encrypts the submitted bytes themselves.
\<close>

theorem transaction_upsert_round_trip_fails:
  "snd (ExecuteStateTransaction (example_state_api True (example_store None []))
     \<lparr>est_StoreName = ''store1'', est_Operations = [example_operation ''upsert'' ''k'' ''hi''],
      est_Metadata = Map.empty\<rparr>) =
     [Dispatch_Multi ''store1''
        \<lparr>tsr_Operations =
           [SetOp \<lparr>set_Key = ''app||k'', set_Value = Bytes ''enc:[104 105]'', set_ETag = None,
                   set_Metadata = Map.empty, set_Concurrency = [], set_Consistency = []\<rparr>],
         tsr_Metadata = Map.empty\<rparr>,
      StateInvoked ''store1'' diag_StateTransaction True] \<and>
   fst (GetState (example_state_api True (example_store None ''enc:[104 105]''))
     \<lparr>gs_StoreName = ''store1'', gs_Key = ''k'', gs_Consistency = 0, gs_Metadata = Map.empty\<rparr>) =
     (\<lparr>gsr_Data = ''[104 105]'', gsr_Etag = [], gsr_Metadata = Map.empty\<rparr>, None)"
  by (simp add: ExecuteStateTransaction_def transaction_encrypt_dispatch_def
      transaction_dispatch_def GetState_def example_state_api_def example_store_def
      example_operation_def example_item_def transaction_operation_def OperationUpsert_def
      OperationDelete_def FeatureTransactional_def Let_def set_options_def example_encrypt_def
      example_decrypt_def stringValueOrEmpty_def digit_def decimal.simps)

text \<open>So the value read back is not the value that was submitted.\<close>

theorem transaction_upsert_round_trip_fails_witness:
  "gsr_Data (fst (fst (GetState (example_state_api True (example_store None ''enc:[104 105]''))
     \<lparr>gs_StoreName = ''store1'', gs_Key = ''k'', gs_Consistency = 0, gs_Metadata = Map.empty\<rparr>))) \<noteq>
   ''hi''"
  using transaction_upsert_round_trip_fails by simp

section \<open>Bulk publish\<close>

lemma validate_adapter:
  "validateAndGetPubsubAndTopic a n t md = Inr v \<Longrightarrow> pubsubAdapter a \<noteq> None"
  by (auto simp: validateAndGetPubsubAndTopic_def split: if_splits)

lemma bulk_entries_raw_fst:
  assumes "bpe_EntryId e \<notin> seen" "bpe_EntryId e \<noteq> []"
  shows "fst (bulk_entries a n t True f md i seen spans (e # es)) =
    (case fst (bulk_entries a n t True f md (Suc i) (insert (bpe_EntryId e) seen) spans es) of
       Inl err \<Rightarrow> Inl err
     | Inr es' \<Rightarrow> Inr (message_entry a md e # es'))"
  using assms by (simp split: prod.splits)

lemma bulk_entries_raw_effects:
  assumes "bpe_EntryId e \<notin> seen" "bpe_EntryId e \<noteq> []"
  shows "snd (snd (bulk_entries a n t True f md i seen spans (e # es))) =
    snd (snd (bulk_entries a n t True f md (Suc i) (insert (bpe_EntryId e) seen) spans es))"
  using assms by (simp split: prod.splits)

lemma bulk_entries_envelope_failed:
  assumes "bpe_EntryId e \<notin> seen" "bpe_EntryId e \<noteq> []"
    and "envelope_entry a n t f i (message_entry a md e) = Inl nerr"
  shows "bulk_entries a n t False f md i seen spans (e # es) =
    (Inl nerr, spans @ [i], SpanStart i # closeChildSpans (spans @ [i]) (Some nerr))"
  using assms by simp

lemma bulk_entries_envelope_fst:
  assumes "bpe_EntryId e \<notin> seen" "bpe_EntryId e \<noteq> []"
    and "envelope_entry a n t f i (message_entry a md e) = Inr e'"
  shows "fst (bulk_entries a n t False f md i seen spans (e # es)) =
    (case fst (bulk_entries a n t False f md (Suc i) (insert (bpe_EntryId e) seen) (spans @ [i]) es) of
       Inl err \<Rightarrow> Inl err
     | Inr es' \<Rightarrow> Inr (e' # es'))"
  using assms by (simp split: prod.splits)

lemma bulk_entries_envelope_effects:
  assumes "bpe_EntryId e \<notin> seen" "bpe_EntryId e \<noteq> []"
    and "envelope_entry a n t f i (message_entry a md e) = Inr e'"
  shows "snd (snd (bulk_entries a n t False f md i seen spans (e # es))) =
    SpanStart i #
    snd (snd (bulk_entries a n t False f md (Suc i) (insert (bpe_EntryId e) seen) (spans @ [i]) es))"
  using assms by (simp split: prod.splits)

lemma bulk_entries_bad_head:
  assumes "bpe_EntryId e \<in> seen \<or> bpe_EntryId e = []"
  shows "bulk_entries a n t raw f md i seen spans (e # es) =
    (Inl (PubSub n (MarshalEvents (ps_AppID a)
            (PlainError ''entryId is duplicated or not present for entry'') t)), spans, [])"
  using assms by auto

lemma bad_ids_rest:
  assumes "(\<exists>x \<in> set (e # es). bpe_EntryId x \<in> seen \<or> bpe_EntryId x = []) \<or>
           \<not> distinct (map bpe_EntryId (e # es))"
    and "\<not> (bpe_EntryId e \<in> seen \<or> bpe_EntryId e = [])"
  shows "(\<exists>x \<in> set es. bpe_EntryId x \<in> insert (bpe_EntryId e) seen \<or> bpe_EntryId x = []) \<or>
         \<not> distinct (map bpe_EntryId es)"
  using assms by auto

lemma bulk_entries_bad_id:
  assumes "(\<exists>x \<in> set entries. bpe_EntryId x \<in> seen \<or> bpe_EntryId x = []) \<or>
           \<not> distinct (map bpe_EntryId entries)"
  shows "\<exists>err. fst (bulk_entries a n t raw f md i seen spans entries) = Inl err"
  using assms
proof (induction entries arbitrary: i seen spans)
  case Nil
  then show ?case by simp
next
  case (Cons e es)
  show ?case
  proof (cases "bpe_EntryId e \<in> seen \<or> bpe_EntryId e = []")
    case True
    then show ?thesis by (simp only: bulk_entries_bad_head fst_conv) blast
  next
    case False
    then have ok: "bpe_EntryId e \<notin> seen" "bpe_EntryId e \<noteq> []" by simp_all
    note rec = Cons.IH [OF bad_ids_rest [OF Cons.prems False]]
    show ?thesis
    proof (cases raw)
      case True
      from rec [of "Suc i" spans] obtain err where
        "fst (bulk_entries a n t True f md (Suc i) (insert (bpe_EntryId e) seen) spans es) = Inl err"
        using True by auto
      then show ?thesis
        using True by (simp del: bulk_entries.simps add: bulk_entries_raw_fst [OF ok])
    next
      case nraw: False
      show ?thesis
      proof (cases "envelope_entry a n t f i (message_entry a md e)")
        case (Inl nerr)
        then show ?thesis
          using nraw by (simp del: bulk_entries.simps add: bulk_entries_envelope_failed [OF ok])
      next
        case (Inr e')
        from rec [of "Suc i" "spans @ [i]"] obtain err where
          "fst (bulk_entries a n t False f md (Suc i) (insert (bpe_EntryId e) seen) (spans @ [i]) es) = Inl err"
          using nraw by auto
        then show ?thesis
          using nraw by (simp del: bulk_entries.simps add: bulk_entries_envelope_fst [OF ok Inr])
      qed
    qed
  qed
qed

lemma bulk_entries_effects:
  "ev \<in> set (snd (snd (bulk_entries a n t raw f md i seen spans entries))) \<Longrightarrow>
   (\<exists>k. ev = SpanStart k) \<or> (\<exists>k e. ev = SpanEnd k e)"
proof (induction entries arbitrary: i seen spans)
  case Nil
  then show ?case by simp
next
  case (Cons e es)
  show ?case
  proof (cases "bpe_EntryId e \<in> seen \<or> bpe_EntryId e = []")
    case True
    with Cons.prems show ?thesis by (simp only: bulk_entries_bad_head snd_conv) simp
  next
    case False
    then have ok: "bpe_EntryId e \<notin> seen" "bpe_EntryId e \<noteq> []" by simp_all
    show ?thesis
    proof (cases raw)
      case True
      with Cons.prems Cons.IH [of "Suc i" "insert (bpe_EntryId e) seen" spans] show ?thesis
        by (simp del: bulk_entries.simps add: bulk_entries_raw_effects [OF ok])
    next
      case nraw: False
      show ?thesis
      proof (cases "envelope_entry a n t f i (message_entry a md e)")
        case (Inl nerr)
        with Cons.prems nraw show ?thesis
          by (auto simp del: bulk_entries.simps simp: bulk_entries_envelope_failed [OF ok] closeChildSpans_def)
      next
        case (Inr e')
        with Cons.prems nraw Cons.IH [of "Suc i" "insert (bpe_EntryId e) seen" "spans @ [i]"]
        show ?thesis
          by (auto simp del: bulk_entries.simps simp: bulk_entries_envelope_effects [OF ok Inr])
      qed
    qed
  qed
qed


lemma bulk_entries_first_bad:
  assumes "k < length es"
    and "distinct (map bpe_EntryId (take k es))"
    and "[] \<notin> set (map bpe_EntryId (take k es))"
    and "set (map bpe_EntryId (take k es)) \<inter> seen = {}"
    and "bpe_EntryId (es ! k) = [] \<or> bpe_EntryId (es ! k) \<in> seen \<union> set (map bpe_EntryId (take k es))"
    and "raw \<or> (\<forall>j<k. \<exists>e'. envelope_entry a n t f (i + j) (message_entry a md (es ! j)) = Inr e')"
  shows "fst (bulk_entries a n t raw f md i seen spans es) =
           Inl (PubSub n (MarshalEvents (ps_AppID a)
                  (PlainError ''entryId is duplicated or not present for entry'') t))"
  using assms
proof (induction es arbitrary: k i seen spans)
  case Nil
  then show ?case by simp
next
  case (Cons e es)
  show ?case
  proof (cases k)
    case 0
    with Cons.prems have "bpe_EntryId e \<in> seen \<or> bpe_EntryId e = []" by auto
    then show ?thesis by (simp only: bulk_entries_bad_head fst_conv)
  next
    case (Suc k')
    with Cons.prems have ok: "bpe_EntryId e \<notin> seen" "bpe_EntryId e \<noteq> []"
      by auto
    have k': "k' < length es"
      and d: "distinct (map bpe_EntryId (take k' es))"
      and ne: "[] \<notin> set (map bpe_EntryId (take k' es))"
      and dj: "set (map bpe_EntryId (take k' es)) \<inter> insert (bpe_EntryId e) seen = {}"
      and b: "bpe_EntryId (es ! k') = [] \<or>
              bpe_EntryId (es ! k') \<in> insert (bpe_EntryId e) seen \<union> set (map bpe_EntryId (take k' es))"
      using Cons.prems Suc by auto
    have env: "raw \<or> (\<forall>j<k'. \<exists>e'. envelope_entry a n t f (Suc i + j) (message_entry a md (es ! j)) = Inr e')"
    proof (cases raw)
      case True
      then show ?thesis by simp
    next
      case False
      with Cons.prems(6) have
        all: "\<forall>j<k. \<exists>e'. envelope_entry a n t f (i + j) (message_entry a md ((e # es) ! j)) = Inr e'"
        by simp
      have "\<exists>e'. envelope_entry a n t f (Suc i + j) (message_entry a md (es ! j)) = Inr e'"
        if "j < k'" for j
        using all [rule_format, of "Suc j"] that Suc by simp
      then show ?thesis by simp
    qed
    note rec = Cons.IH [OF k' d ne dj b env]
    show ?thesis
    proof (cases raw)
      case True
      then show ?thesis
        using rec [of spans] by (simp del: bulk_entries.simps add: bulk_entries_raw_fst [OF ok])
    next
      case nraw: False
      with Cons.prems(6) Suc obtain e' where
        e': "envelope_entry a n t f i (message_entry a md e) = Inr e'"
        by fastforce
      show ?thesis
        using nraw rec [of "spans @ [i]"]
        by (simp del: bulk_entries.simps add: bulk_entries_envelope_fst [OF ok e'])
    qed
  qed
qed

lemma distinct_take_ids:
  assumes "\<forall>j<k. f (es ! j) \<notin> set (map f (take j es))" and "k \<le> length es"
  shows "distinct (map f (take k es))"
  using assms
proof (induction k)
  case 0
  then show ?case by simp
next
  case (Suc k)
  then have "distinct (map f (take k es))" by simp
  moreover have "f (es ! k) \<notin> set (map f (take k es))" using Suc.prems by simp
  ultimately show ?case
    using Suc.prems by (simp add: take_Suc_conv_app_nth)
qed

text \<open>A list with an empty or repeated entry id has a first entry with a bad id: the
  ids before it are distinct and not empty, and its own id is empty or among them.\<close>

lemma first_bad_entry_exists:
  assumes "(\<exists>x \<in> set es. bpe_EntryId x = []) \<or> \<not> distinct (map bpe_EntryId es)"
  shows "\<exists>k<length es.
           distinct (map bpe_EntryId (take k es)) \<and>
           [] \<notin> set (map bpe_EntryId (take k es)) \<and>
           (bpe_EntryId (es ! k) = [] \<or> bpe_EntryId (es ! k) \<in> set (map bpe_EntryId (take k es)))"
proof -
  let ?bad = "\<lambda>k. k < length es \<and>
      (bpe_EntryId (es ! k) = [] \<or> bpe_EntryId (es ! k) \<in> set (map bpe_EntryId (take k es)))"
  have "\<exists>k. ?bad k"
  proof (rule ccontr)
    assume none: "\<not> (\<exists>k. ?bad k)"
    then have "\<forall>j<length es. bpe_EntryId (es ! j) \<notin> set (map bpe_EntryId (take j es))"
      by blast
    from distinct_take_ids [OF this] have "distinct (map bpe_EntryId es)" by simp
    moreover have "\<forall>x \<in> set es. bpe_EntryId x \<noteq> []"
      using none by (metis in_set_conv_nth)
    ultimately show False using assms by blast
  qed
  then obtain k where k: "?bad k" and least: "\<forall>j<k. \<not> ?bad j"
    using exists_least_iff [of ?bad] by blast
  have before: "\<forall>j<k. bpe_EntryId (es ! j) \<noteq> [] \<and> bpe_EntryId (es ! j) \<notin> set (map bpe_EntryId (take j es))"
    using k least by auto
  then have "distinct (map bpe_EntryId (take k es))"
    using distinct_take_ids [of k bpe_EntryId es] k by simp
  moreover have "[] \<notin> set (map bpe_EntryId (take k es))"
  proof -
    have "x \<noteq> []" if "x \<in> set (map bpe_EntryId (take k es))" for x
    proof -
      from that obtain j where "j < k" "x = bpe_EntryId (es ! j)"
        by (auto simp: in_set_conv_nth)
      with before show ?thesis by simp
    qed
    then show ?thesis by blast
  qed
  ultimately show ?thesis using k by blast
qed



lemma BulkPublish_entries_failed:
  assumes "validateAndGetPubsubAndTopic a (bp_PubsubName r) (bp_Topic r) (bp_Metadata r) =
             Inr (f, n, t, raw)"
    and "fst (bulk_entries a n t raw f (bp_Metadata r) 0 {} [] (bp_Entries r)) = Inl err"
  shows "BulkPublishEventAlpha1 a r =
    (([], Some err), snd (snd (bulk_entries a n t raw f (bp_Metadata r) 0 {} [] (bp_Entries r))))"
  using assms
  by (cases "bulk_entries a n t raw f (bp_Metadata r) 0 {} [] (bp_Entries r)")
    (simp add: BulkPublishEventAlpha1_def)

text \<open>
  Claim C2, as the code has it. A bulk publish whose entries hold an empty entry id or
  the same entry id twice fails with an empty response, and nothing is dispatched to
  the broker and no egress metric is recorded. The error is the one for a bad entry id,
  an \<open>InvalidArgument\<close>, when the pubsub and the topic pass the validation and, with
  entry \<open>k\<close> the first one with a bad id, the payload is raw or the envelope of every
  entry before \<open>k\<close> is built; otherwise the call has failed earlier, with the error of
  the validation or of the envelope.
\<close>

theorem BulkPublish_bad_entry_ids:
  assumes "(\<exists>x \<in> set (bp_Entries r). bpe_EntryId x = []) \<or>
           \<not> distinct (map bpe_EntryId (bp_Entries r))"
  shows "(\<exists>err. snd (fst (BulkPublishEventAlpha1 a r)) = Some err) \<and>
         fst (fst (BulkPublishEventAlpha1 a r)) = [] \<and>
         (\<forall>ev \<in> set (snd (BulkPublishEventAlpha1 a r)).
            (\<forall>breq. ev \<noteq> Dispatch_BulkPublish breq) \<and>
            (\<forall>name topic ok c. ev \<noteq> BulkPubsubEgressEvent name topic ok c)) \<and>
         (validateAndGetPubsubAndTopic a (bp_PubsubName r) (bp_Topic r) (bp_Metadata r) =
            Inr (f, n, t, raw) \<and>
          k < length (bp_Entries r) \<and>
          distinct (map bpe_EntryId (take k (bp_Entries r))) \<and>
          [] \<notin> set (map bpe_EntryId (take k (bp_Entries r))) \<and>
          (bpe_EntryId (bp_Entries r ! k) = [] \<or>
           bpe_EntryId (bp_Entries r ! k) \<in> set (map bpe_EntryId (take k (bp_Entries r)))) \<and>
          (raw \<or> (\<forall>j<k. \<exists>e'. envelope_entry a n t f j
                                  (message_entry a (bp_Metadata r) (bp_Entries r ! j)) = Inr e')) \<longrightarrow>
          snd (fst (BulkPublishEventAlpha1 a r)) =
            Some (PubSub n (MarshalEvents (ps_AppID a)
                    (PlainError ''entryId is duplicated or not present for entry'') t)) \<and>
          Code (PubSub n (MarshalEvents (ps_AppID a)
                  (PlainError ''entryId is duplicated or not present for entry'') t)) =
            Some InvalidArgument)"
proof (cases "validateAndGetPubsubAndTopic a (bp_PubsubName r) (bp_Topic r) (bp_Metadata r)")
  case (Inl validationErr)
  then show ?thesis
    by (simp add: BulkPublishEventAlpha1_def)
next
  case (Inr v)
  obtain f' n' t' raw' where v: "v = (f', n', t', raw')"
    by (cases v) auto
  have bad: "(\<exists>x \<in> set (bp_Entries r). bpe_EntryId x \<in> {} \<or> bpe_EntryId x = []) \<or>
             \<not> distinct (map bpe_EntryId (bp_Entries r))"
    using assms by auto
  from bulk_entries_bad_id [OF bad] obtain err where
    err: "fst (bulk_entries a n' t' raw' f' (bp_Metadata r) 0 {} [] (bp_Entries r)) = Inl err"
    by blast
  note run = BulkPublish_entries_failed [OF Inr [unfolded v] err]
  have effects: "\<forall>ev \<in> set (snd (BulkPublishEventAlpha1 a r)).
            (\<forall>breq. ev \<noteq> Dispatch_BulkPublish breq) \<and>
            (\<forall>name topic ok c. ev \<noteq> BulkPubsubEgressEvent name topic ok c)"
    using bulk_entries_effects [of _ a n' t' raw' f' "bp_Metadata r" 0 "{}" "[]" "bp_Entries r"]
    by (auto simp: run)
  have exact: "snd (fst (BulkPublishEventAlpha1 a r)) =
            Some (PubSub n (MarshalEvents (ps_AppID a)
                    (PlainError ''entryId is duplicated or not present for entry'') t))"
    if eq: "f = f'" "n = n'" "t = t'" "raw = raw'"
      and k: "k < length (bp_Entries r)"
      and d: "distinct (map bpe_EntryId (take k (bp_Entries r)))"
      and ne: "[] \<notin> set (map bpe_EntryId (take k (bp_Entries r)))"
      and b: "bpe_EntryId (bp_Entries r ! k) = [] \<or>
              bpe_EntryId (bp_Entries r ! k) \<in> set (map bpe_EntryId (take k (bp_Entries r)))"
      and env: "raw \<or> (\<forall>j<k. \<exists>e'. envelope_entry a n t f j
                                  (message_entry a (bp_Metadata r) (bp_Entries r ! j)) = Inr e')"
  proof -
    have dj: "set (map bpe_EntryId (take k (bp_Entries r))) \<inter> {} = {}" by simp
    have b': "bpe_EntryId (bp_Entries r ! k) = [] \<or>
              bpe_EntryId (bp_Entries r ! k) \<in> {} \<union> set (map bpe_EntryId (take k (bp_Entries r)))"
      using b by simp
    have env': "raw \<or> (\<forall>j<k. \<exists>e'. envelope_entry a n t f (0 + j)
                                  (message_entry a (bp_Metadata r) (bp_Entries r ! j)) = Inr e')"
      using env by simp
    from bulk_entries_first_bad [OF k d ne dj b' env', of "[]"] err eq show ?thesis
      by (simp add: run)
  qed
  show ?thesis
    using effects exact Inr v by (auto simp: run)
qed

text \<open>The entry ids \<open>a\<close>, \<open>a\<close>, \<open>b\<close> on the pubsub \<open>ps1\<close>; the envelope of the third entry
  could not be built, but the second entry ends the call before.\<close>

theorem BulkPublish_bad_entry_ids_witness:
  "fst (BulkPublishEventAlpha1 (example_strict_pubsub_api (Some example_partial_failure) False)
     \<lparr>bp_PubsubName = ''ps1'', bp_Topic = ''t'',
      bp_Entries = [example_entry ''a'' ''1'', example_entry ''a'' ''2'', example_entry ''b'' []],
      bp_Metadata = Map.empty\<rparr>) =
   ([], Some (PubSub ''ps1'' (MarshalEvents ''app''
                (PlainError ''entryId is duplicated or not present for entry'') ''t''))) \<and>
   Code (PubSub ''ps1'' (MarshalEvents ''app''
           (PlainError ''entryId is duplicated or not present for entry'') ''t'')) =
     Some InvalidArgument \<and>
   envelope_entry (example_strict_pubsub_api (Some example_partial_failure) False) ''ps1'' ''t'' [] 2
     (message_entry (example_strict_pubsub_api (Some example_partial_failure) False) Map.empty
        (example_entry ''b'' [])) =
     Inl (PubSub ''ps1'' (CloudEventCreation ''app'' (PlainError ''no data'')))"
  using BulkPublish_bad_entry_ids
    [of "\<lparr>bp_PubsubName = ''ps1'', bp_Topic = ''t'',
          bp_Entries = [example_entry ''a'' ''1'', example_entry ''a'' ''2'', example_entry ''b'' []],
          bp_Metadata = Map.empty\<rparr>"
        "example_strict_pubsub_api (Some example_partial_failure) False" "[]" "''ps1''" "''t''" False 1]
  by (simp add: example_strict_pubsub_api_def example_pubsub_api_def example_entry_def
      validateAndGetPubsubAndTopic_def BulkPublishEventAlpha1_def message_entry_def
      envelope_entry_def closeChildSpans_def)

text \<open>
  Claim C2 as the spec states it fails when no pubsub is configured: the same request
  is refused by the validation, as "NotConfigured", before the entry ids are looked at.
\<close>

theorem BulkPublish_not_configured_counterexample:
  "BulkPublishEventAlpha1 (example_pubsub_api None False)
     \<lparr>bp_PubsubName = ''ps1'', bp_Topic = ''t'',
      bp_Entries = [example_entry ''a'' ''1'', example_entry ''a'' ''2'', example_entry ''b'' ''3''],
      bp_Metadata = Map.empty\<rparr> =
   (([], Some (PubSub ''ps1'' NotConfigured)), []) \<and>
   Code (PubSub ''ps1'' NotConfigured) = Some FailedPrecondition"
  by (simp add: example_pubsub_api_def validateAndGetPubsubAndTopic_def BulkPublishEventAlpha1_def)

text \<open>After the dispatch, the failed entries of the broker reach the caller only when the
  adapter returns no error.\<close>

lemma BulkPublish_dispatched:
  assumes "validateAndGetPubsubAndTopic a (bp_PubsubName r) (bp_Topic r) (bp_Metadata r) =
             Inr (f, n, t, raw)"
    and "bulk_entries a n t raw f (bp_Metadata r) 0 {} [] (bp_Entries r) = (Inr entries, spans, effects)"
    and "the (pubsubAdapter a)
           \<lparr>bpr_PubsubName = n, bpr_Topic = t, bpr_Entries = entries, bpr_Metadata = bp_Metadata r\<rparr> =
         (failed, err)"
  shows "fst (BulkPublishEventAlpha1 a r) =
           (case err of
              None \<Rightarrow> (map failed_entry failed, None)
            | Some e \<Rightarrow> ([], Some (bulk_publish_error a n t e)))"
  using assms by (simp add: BulkPublishEventAlpha1_def Let_def split: option.splits)

text \<open>
  Claim C1 at a publish of the entries \<open>a\<close> and \<open>b\<close> of which the broker rejects \<open>b\<close>: the
  adapter reports the failed entry together with an error, and the call returns that
  error and an empty response, after recording one published event.
\<close>

theorem BulkPublish_partial_failure_is_an_error:
  "BulkPublishEventAlpha1 (example_pubsub_api (Some example_partial_failure) True)
     \<lparr>bp_PubsubName = ''ps1'', bp_Topic = ''t'',
      bp_Entries = [example_entry ''a'' ''1'', example_entry ''b'' ''2''],
      bp_Metadata = Map.empty\<rparr> =
   (([], Some (PubSub ''ps1'' (PublishMessage ''t'' (PlainError ''1 of 2 entries failed'')))),
    [Dispatch_BulkPublish
       \<lparr>bpr_PubsubName = ''ps1'', bpr_Topic = ''t'',
        bpr_Entries =
          [\<lparr>bme_EntryId = ''a'', bme_Event = ''1'', bme_ContentType = ''text/plain'',
            bme_Metadata = Map.empty\<rparr>,
           \<lparr>bme_EntryId = ''b'', bme_Event = ''2'', bme_ContentType = ''text/plain'',
            bme_Metadata = Map.empty\<rparr>],
        bpr_Metadata = Map.empty\<rparr>,
     BulkPubsubEgressEvent ''ps1'' ''t'' False 1])"
  by (simp add: example_pubsub_api_def example_entry_def example_partial_failure_def
      validateAndGetPubsubAndTopic_def BulkPublishEventAlpha1_def message_entry_def
      closeChildSpans_def bulk_publish_error_def Let_def)

section \<open>Baggage of a binding call\<close>

text \<open>
  Claim C8, as the code has it. When the incoming metadata of an \<^verbatim>\<open>InvokeBinding\<close> call
  carries a baggage header that does not parse, the call returns no response and the
  error of the parser, unchanged, and has no effect: the output binding is not called
  and no metric is recorded.
\<close>

theorem InvokeBinding_baggage_parse_failure:
  assumes "ctx_incomingMD ctx = Some md"
    and "map_of md BaggageHeader = Some (v, vs)"
    and "otelbaggage_Parse a (join_comma (v # vs)) = Inl err"
  shows "InvokeBinding a ctx r = ((None, Some (Err err)), [])"
  using assms by (simp add: InvokeBinding_def Let_def)

text \<open>A baggage header without an equals sign.\<close>

theorem InvokeBinding_baggage_parse_failure_witness:
  "InvokeBinding example_binding_api (example_binding_ctx ''user;id'') example_binding_request =
     ((None, Some (Err (PlainError ''invalid baggage list-member''))), [])"
  using InvokeBinding_baggage_parse_failure
    [of "example_binding_ctx ''user;id''" "[(''baggage'', ''user;id'', [])]" "''user;id''" "[]"
        example_binding_api "PlainError ''invalid baggage list-member''" example_binding_request]
  by (simp add: example_binding_ctx_def example_binding_api_def BaggageHeader_def)

text \<open>
  Claim C8 as the spec states it fails on the code of the error: the error of the
  parser is returned as it is and carries no status, so its code is \<open>Unknown\<close>, not
  \<open>InvalidArgument\<close>.
\<close>

theorem InvokeBinding_baggage_error_code_counterexample:
  "snd (fst (InvokeBinding example_binding_api (example_binding_ctx ''malformed'')
               example_binding_request)) =
     Some (Err (PlainError ''invalid baggage list-member'')) \<and>
   Code (Err (PlainError ''invalid baggage list-member'')) = Some Unknown"
  by (simp add: InvokeBinding_def example_binding_ctx_def example_binding_api_def
      BaggageHeader_def Let_def)

text \<open>A baggage header that parses goes to the binding with the request.\<close>

lemma InvokeBinding_baggage_accepted_example:
  "snd (InvokeBinding example_binding_api (example_binding_ctx ''user=alice'') example_binding_request) =
     [SendToOutputBinding ''queue''
        \<lparr>ir_Metadata = [''traceparent'' \<mapsto> ''00-0af7651916cd43dd8448eb211c80319c-b7ad6b7169203331-01'',
                        ''baggage'' \<mapsto> ''user=alice''],
         ir_Operation = ''create'', ir_Data = ''hi''\<rparr> (Some ''user=alice''),
      OutputBindingEvent ''queue'' ''create'' True]"
  by (simp add: InvokeBinding_def invoke_output_binding_def span_metadata_def example_binding_ctx_def
      example_binding_api_def example_binding_request_def BaggageHeader_def TraceparentHeader_def
      TracestateHeader_def Let_def)


section \<open>Unsubscribing a configuration subscription\<close>

text \<open>
  Claim C10. \<^verbatim>\<open>UnsubscribeConfiguration\<close> never returns an error. For an id that is not
  in the subscription table the response has \<open>Ok = False\<close> and a message made from the
  id, and the table is unchanged; for an id in the table the response has \<open>Ok = True\<close>,
  the entry is gone from the table, its stop channel is closed and every other entry
  is as before.
\<close>

theorem UnsubscribeConfiguration_result:
  "snd (fst (UnsubscribeConfiguration c i)) = None \<and>
   (configurationSubscribes c i = None \<longrightarrow>
      fst (fst (UnsubscribeConfiguration c i)) =
        \<lparr>ucr_Ok = False,
         ucr_Message = Some (Sprintf ErrConfigurationUnsubscribe [i, ''subscription does not exist''])\<rparr> \<and>
      fst (snd (UnsubscribeConfiguration c i)) = c) \<and>
   (configurationSubscribes c i = Some stop \<longrightarrow>
      ucr_Ok (fst (fst (UnsubscribeConfiguration c i))) \<and>
      configurationSubscribes (fst (snd (UnsubscribeConfiguration c i))) i = None \<and>
      stop \<in> closedChannels (fst (snd (UnsubscribeConfiguration c i))) \<and>
      (j \<noteq> i \<longrightarrow> configurationSubscribes (fst (snd (UnsubscribeConfiguration c i))) j =
                   configurationSubscribes c j))"
  by (simp add: UnsubscribeConfiguration_def GetConfigurationSubscribe_def
      DeleteConfigurationSubscribe_def split: option.splits)

text \<open>Unsubscribing the unknown id \<open>sub-2\<close> and the known id \<open>sub-1\<close>.\<close>

theorem UnsubscribeConfiguration_result_witness:
  "fst (UnsubscribeConfiguration example_store_table ''sub-2'') =
     (\<lparr>ucr_Ok = False,
       ucr_Message = Some (Sprintf ErrConfigurationUnsubscribe [''sub-2'', ''subscription does not exist''])\<rparr>,
      None) \<and>
   fst (fst (UnsubscribeConfiguration example_store_table ''sub-1'')) =
     \<lparr>ucr_Ok = True, ucr_Message = None\<rparr> \<and>
   configurationSubscribes (fst (snd (UnsubscribeConfiguration example_store_table ''sub-1''))) ''sub-1'' = None \<and>
   7 \<in> closedChannels (fst (snd (UnsubscribeConfiguration example_store_table ''sub-1'')))"
  using UnsubscribeConfiguration_result [of example_store_table "''sub-2''" 7 "''sub-1''"]
    UnsubscribeConfiguration_result [of example_store_table "''sub-1''" 7 "''sub-2''"]
  by (simp add: example_store_table_def UnsubscribeConfiguration_def GetConfigurationSubscribe_def
      DeleteConfigurationSubscribe_def prod_eq_iff)

section \<open>The ready gate of a configuration subscription\<close>

lemma id_message_first_append:
  "id_message_first i log \<Longrightarrow> log \<noteq> [] \<Longrightarrow> id_message_first i (log @ [(FromHandler k, m)])"
  by (cases log) (auto simp: id_message_first_def)

lemma id_message_first_single: "id_message_first i [(FromCall, id_message i)]"
  by (simp add: id_message_first_def)

lemma blocked_nth:
  "\<forall>h \<in> set hs. \<exists>e. h = AtGate e \<Longrightarrow> k < length hs \<Longrightarrow> \<exists>e. hs ! k = AtGate e"
  by simp

lemma step_invariant:
  assumes "step s t" and "gate_invariant s"
  shows "gate_invariant t"
  using assms
proof (induction rule: step.induct)
  case (update_sent i s e)
  have open_gate: "readyClosed s"
    using update_sent blocked_nth [of "handlers s" i] by (auto simp: gate_invariant_def)
  show ?case
    using update_sent open_gate
    by (auto simp: gate_invariant_def id_message_first_append split: call_point.splits option.splits)
next
  case (update_failed i s e)
  have open_gate: "readyClosed s"
    using update_failed blocked_nth [of "handlers s" i] by (auto simp: gate_invariant_def)
  show ?case
    using update_failed open_gate
    by (auto simp: gate_invariant_def split: call_point.splits option.splits)
next
  case (lock_taken i s e)
  have open_gate: "readyClosed s"
    using lock_taken blocked_nth [of "handlers s" i] by (auto simp: gate_invariant_def)
  show ?case
    using lock_taken open_gate
    by (auto simp: gate_invariant_def split: call_point.splits option.splits)
next
  case (gate_passed i s e)
  then show ?case
    by (auto simp: gate_invariant_def split: call_point.splits option.splits)
qed (auto simp: gate_invariant_def id_message_first_single id_message_first_def
       split: call_point.splits option.splits)

lemma reachable_invariant: "reachable s \<Longrightarrow> gate_invariant s"
proof (induction rule: reachable.induct)
  case reach_initial
  show ?case by (simp add: gate_invariant_def initial_def)
next
  case (reach_step s t)
  then show ?case by (blast intro: step_invariant)
qed

text \<open>
  Claim C5. In every state that a \<^verbatim>\<open>SubscribeConfiguration\<close> call can reach after the
  driver's \<^verbatim>\<open>Subscribe\<close> succeeded with an id, the messages delivered on the stream are
  none, or a first message that the call itself has sent, that carries the id the
  driver assigned and no item, followed by messages of the update handler only: no
  update comes before the id message. While the gate is closed every call of the
  update handler is blocked on it, and the gate is open only after the \<^verbatim>\<open>Send\<close> of the
  id message has returned: then the id message has been delivered, or that \<^verbatim>\<open>Send\<close>
  failed, the stream is aborted and nothing is ever delivered on it.
\<close>

theorem subscription_id_message_first:
  assumes "reachable s" and "subscribeID_of (call s) = Some i"
  shows "(delivered s = [] \<or>
          (\<exists>m rest. delivered s = m # rest \<and> fst m = FromCall \<and> scr_Id (snd m) = i \<and>
                     scr_Items (snd m) = Map.empty \<and> (\<forall>x \<in> set rest. fst x \<noteq> FromCall))) \<and>
         id_message_first i (delivered s) \<and>
         (readyClosed s \<longrightarrow> call s \<noteq> SendID i \<and> (delivered s \<noteq> [] \<or> aborted s)) \<and>
         (\<not> readyClosed s \<longrightarrow> (\<forall>h \<in> set (handlers s). \<exists>e. h = AtGate e))"
proof -
  have inv: "id_message_first i (delivered s) \<and>
         (readyClosed s \<longrightarrow> call s \<noteq> SendID i \<and> (delivered s \<noteq> [] \<or> aborted s)) \<and>
         (\<not> readyClosed s \<longrightarrow> (\<forall>h \<in> set (handlers s). \<exists>e. h = AtGate e))"
    using reachable_invariant [OF assms(1)] assms(2)
    by (cases "call s")
      (auto simp: gate_invariant_def id_message_first_def split: option.splits)
  then have "id_message_first i (delivered s)" by simp
  then have "delivered s = [] \<or>
          (\<exists>m rest. delivered s = m # rest \<and> fst m = FromCall \<and> scr_Id (snd m) = i \<and>
                     scr_Items (snd m) = Map.empty \<and> (\<forall>x \<in> set rest. fst x \<noteq> FromCall))"
    by (cases "delivered s") (simp_all add: id_message_first_def id_message_def)
  with inv show ?thesis by simp
qed

text \<open>A run of a subscription: an update arrives while \<^verbatim>\<open>Subscribe\<close> is still in flight,
  waits for the gate and is sent after the id message.\<close>

lemma example_subscription_reachable: "reachable example_subscription"
proof -
  have r0: "reachable \<lparr>call = GetStore, readyClosed = False, locked = False, handlers = [],
        delivered = [], aborted = False, subscribes = {}\<rparr>"
    using reach_initial by (simp add: initial_def)
  have "step
      \<lparr>call = GetStore, readyClosed = False, locked = False, handlers = [],
        delivered = [], aborted = False, subscribes = {}\<rparr>
      \<lparr>call = Subscribe, readyClosed = False, locked = False, handlers = [],
        delivered = [], aborted = False, subscribes = {}\<rparr>"
    using step.store_found [of "\<lparr>call = GetStore, readyClosed = False, locked = False, handlers = [],
        delivered = [], aborted = False, subscribes = {}\<rparr>"] by simp
  from reach_step [OF r0 this] have r1: "reachable
      \<lparr>call = Subscribe, readyClosed = False, locked = False, handlers = [],
        delivered = [], aborted = False, subscribes = {}\<rparr>" .
  have "step
      \<lparr>call = Subscribe, readyClosed = False, locked = False, handlers = [],
        delivered = [], aborted = False, subscribes = {}\<rparr>
      \<lparr>call = Subscribe, readyClosed = False, locked = False, handlers = [AtGate example_update],
        delivered = [], aborted = False, subscribes = {}\<rparr>"
    using step.update_arrives [of "\<lparr>call = Subscribe, readyClosed = False, locked = False, handlers = [],
        delivered = [], aborted = False, subscribes = {}\<rparr>" example_update] by simp
  from reach_step [OF r1 this] have r2: "reachable
      \<lparr>call = Subscribe, readyClosed = False, locked = False, handlers = [AtGate example_update],
        delivered = [], aborted = False, subscribes = {}\<rparr>" .
  have "step
      \<lparr>call = Subscribe, readyClosed = False, locked = False, handlers = [AtGate example_update],
        delivered = [], aborted = False, subscribes = {}\<rparr>
      \<lparr>call = SendID ''sub-1'', readyClosed = False, locked = False, handlers = [AtGate example_update],
        delivered = [], aborted = False, subscribes = {}\<rparr>"
    using step.subscribe_ok [of "\<lparr>call = Subscribe, readyClosed = False, locked = False, handlers = [AtGate example_update],
        delivered = [], aborted = False, subscribes = {}\<rparr>" "''sub-1''"] by simp
  from reach_step [OF r2 this] have r3: "reachable
      \<lparr>call = SendID ''sub-1'', readyClosed = False, locked = False, handlers = [AtGate example_update],
        delivered = [], aborted = False, subscribes = {}\<rparr>" .
  have "step
      \<lparr>call = SendID ''sub-1'', readyClosed = False, locked = False, handlers = [AtGate example_update],
        delivered = [], aborted = False, subscribes = {}\<rparr>
      \<lparr>call = AddSubscribe ''sub-1'', readyClosed = False, locked = False, handlers = [AtGate example_update],
        delivered = [(FromCall, id_message ''sub-1'')], aborted = False, subscribes = {}\<rparr>"
    using step.send_id_ok [of "\<lparr>call = SendID ''sub-1'', readyClosed = False, locked = False, handlers = [AtGate example_update],
        delivered = [], aborted = False, subscribes = {}\<rparr>" "''sub-1''"] by simp
  from reach_step [OF r3 this] have r4: "reachable
      \<lparr>call = AddSubscribe ''sub-1'', readyClosed = False, locked = False, handlers = [AtGate example_update],
        delivered = [(FromCall, id_message ''sub-1'')], aborted = False, subscribes = {}\<rparr>" .
  have "step
      \<lparr>call = AddSubscribe ''sub-1'', readyClosed = False, locked = False, handlers = [AtGate example_update],
        delivered = [(FromCall, id_message ''sub-1'')], aborted = False, subscribes = {}\<rparr>
      \<lparr>call = Ready ''sub-1'', readyClosed = False, locked = False, handlers = [AtGate example_update],
        delivered = [(FromCall, id_message ''sub-1'')], aborted = False, subscribes = {''sub-1''}\<rparr>"
    using step.add_subscribe [of "\<lparr>call = AddSubscribe ''sub-1'', readyClosed = False, locked = False, handlers = [AtGate example_update],
        delivered = [(FromCall, id_message ''sub-1'')], aborted = False, subscribes = {}\<rparr>" "''sub-1''"] by simp
  from reach_step [OF r4 this] have r5: "reachable
      \<lparr>call = Ready ''sub-1'', readyClosed = False, locked = False, handlers = [AtGate example_update],
        delivered = [(FromCall, id_message ''sub-1'')], aborted = False, subscribes = {''sub-1''}\<rparr>" .
  have "step
      \<lparr>call = Ready ''sub-1'', readyClosed = False, locked = False, handlers = [AtGate example_update],
        delivered = [(FromCall, id_message ''sub-1'')], aborted = False, subscribes = {''sub-1''}\<rparr>
      \<lparr>call = Wait ''sub-1'', readyClosed = True, locked = False, handlers = [AtGate example_update],
        delivered = [(FromCall, id_message ''sub-1'')], aborted = False, subscribes = {''sub-1''}\<rparr>"
    using step.ready [of "\<lparr>call = Ready ''sub-1'', readyClosed = False, locked = False, handlers = [AtGate example_update],
        delivered = [(FromCall, id_message ''sub-1'')], aborted = False, subscribes = {''sub-1''}\<rparr>" "''sub-1''"] by simp
  from reach_step [OF r5 this] have r6: "reachable
      \<lparr>call = Wait ''sub-1'', readyClosed = True, locked = False, handlers = [AtGate example_update],
        delivered = [(FromCall, id_message ''sub-1'')], aborted = False, subscribes = {''sub-1''}\<rparr>" .
  have "step
      \<lparr>call = Wait ''sub-1'', readyClosed = True, locked = False, handlers = [AtGate example_update],
        delivered = [(FromCall, id_message ''sub-1'')], aborted = False, subscribes = {''sub-1''}\<rparr>
      \<lparr>call = Wait ''sub-1'', readyClosed = True, locked = False, handlers = [AtLock example_update],
        delivered = [(FromCall, id_message ''sub-1'')], aborted = False, subscribes = {''sub-1''}\<rparr>"
    using step.gate_passed [of 0 "\<lparr>call = Wait ''sub-1'', readyClosed = True, locked = False, handlers = [AtGate example_update],
        delivered = [(FromCall, id_message ''sub-1'')], aborted = False, subscribes = {''sub-1''}\<rparr>" example_update] by simp
  from reach_step [OF r6 this] have r7: "reachable
      \<lparr>call = Wait ''sub-1'', readyClosed = True, locked = False, handlers = [AtLock example_update],
        delivered = [(FromCall, id_message ''sub-1'')], aborted = False, subscribes = {''sub-1''}\<rparr>" .
  have "step
      \<lparr>call = Wait ''sub-1'', readyClosed = True, locked = False, handlers = [AtLock example_update],
        delivered = [(FromCall, id_message ''sub-1'')], aborted = False, subscribes = {''sub-1''}\<rparr>
      \<lparr>call = Wait ''sub-1'', readyClosed = True, locked = True, handlers = [Sending example_update],
        delivered = [(FromCall, id_message ''sub-1'')], aborted = False, subscribes = {''sub-1''}\<rparr>"
    using step.lock_taken [of 0 "\<lparr>call = Wait ''sub-1'', readyClosed = True, locked = False, handlers = [AtLock example_update],
        delivered = [(FromCall, id_message ''sub-1'')], aborted = False, subscribes = {''sub-1''}\<rparr>" example_update] by simp
  from reach_step [OF r7 this] have r8: "reachable
      \<lparr>call = Wait ''sub-1'', readyClosed = True, locked = True, handlers = [Sending example_update],
        delivered = [(FromCall, id_message ''sub-1'')], aborted = False, subscribes = {''sub-1''}\<rparr>" .
  have "step
      \<lparr>call = Wait ''sub-1'', readyClosed = True, locked = True, handlers = [Sending example_update],
        delivered = [(FromCall, id_message ''sub-1'')], aborted = False, subscribes = {''sub-1''}\<rparr>
      \<lparr>call = Wait ''sub-1'', readyClosed = True, locked = False, handlers = [Finished],
        delivered = [(FromCall, id_message ''sub-1''), (FromHandler 0, update_message example_update)], aborted = False, subscribes = {''sub-1''}\<rparr>"
    using step.update_sent [of 0 "\<lparr>call = Wait ''sub-1'', readyClosed = True, locked = True, handlers = [Sending example_update],
        delivered = [(FromCall, id_message ''sub-1'')], aborted = False, subscribes = {''sub-1''}\<rparr>" example_update] by simp
  from reach_step [OF r8 this] have r9: "reachable
      \<lparr>call = Wait ''sub-1'', readyClosed = True, locked = False, handlers = [Finished],
        delivered = [(FromCall, id_message ''sub-1''), (FromHandler 0, update_message example_update)], aborted = False, subscribes = {''sub-1''}\<rparr>" .
  from r9 show ?thesis
    by (simp add: example_subscription_def)
qed

theorem subscription_id_message_first_witness:
  "reachable example_subscription \<and>
   subscribeID_of (call example_subscription) = Some ''sub-1'' \<and>
   delivered example_subscription =
     [(FromCall, \<lparr>scr_Id = ''sub-1'', scr_Items = Map.empty\<rparr>),
      (FromHandler 0, update_message example_update)] \<and>
   id_message_first ''sub-1'' (delivered example_subscription) \<and>
   readyClosed example_subscription"
  using subscription_id_message_first [OF example_subscription_reachable, of "''sub-1''"]
    example_subscription_reachable
  by (simp add: example_subscription_def id_message_def)

end
